theory Spec2Isabelle
  imports Complex_Main "HOL-Library.Word" "HOL-Library.Sublist"
begin

unbundle bit_operations_syntax

section \<open>JavaScript values\<close>

text \<open>
  A JavaScript \<^verbatim>\<open>number\<close> is a double: a finite value, one of the two infinities, or NaN.
  Finite doubles are rationals; the model keeps every rational, which is more than the
  doubles, and never computes with them except through the platform operations below.
\<close>

datatype jsnum = Fin rat | PosInfinity | NegInfinity | NaN

text \<open>\<^verbatim>\<open>isNaN(v)\<close> on a value that is already a number.\<close>

definition isNaN :: "jsnum \<Rightarrow> bool" where
  "isNaN n = (n = NaN)"

text \<open>
  A Node \<^verbatim>\<open>Buffer\<close> is a byte view on an \<^verbatim>\<open>ArrayBuffer\<close>: the bytes of the whole
  underlying buffer, the offset at which the view starts, and the view's length.
\<close>

record Buffer =
  arrayBuffer :: "8 word list"
  byteOffset :: nat
  byteLength :: nat

text \<open>The bytes a \<^verbatim>\<open>Buffer\<close> shows: \<^verbatim>\<open>byteLength\<close> bytes from \<^verbatim>\<open>byteOffset\<close> on.\<close>

definition bufferBytes :: "Buffer \<Rightarrow> 8 word list" where
  "bufferBytes b = take (byteLength b) (drop (byteOffset b) (arrayBuffer b))"

text \<open>
  The values of type \<^verbatim>\<open>unknown\<close> that reach the library. \<open>JObject\<close> stands for any other
  object (a plain object, a function): it is not an array and not a number.
\<close>

datatype jsval =
    JUndefined
  | JNull
  | JBool bool
  | JNum jsnum
  | JStr string
  | JSymbol
  | JBigInt int
  | JBuf Buffer
  | JArr "jsval list"
  | JObject

section \<open>vector.ts: the codec\<close>

text \<open>
  The four bytes of a 32-bit pattern in little-endian order, as a \<^verbatim>\<open>Float32Array\<close> lays an
  element out in its \<^verbatim>\<open>ArrayBuffer\<close> on a little-endian platform, and the pattern read back
  from four bytes.
\<close>

definition le_bytes :: "32 word \<Rightarrow> 8 word list" where
  "le_bytes w = [ucast w, ucast (drop_bit 8 w), ucast (drop_bit 16 w), ucast (drop_bit 24 w)]"

definition of_le_bytes :: "8 word list \<Rightarrow> 32 word" where
  "of_le_bytes bs =
     ucast (bs ! 0) OR push_bit 8 (ucast (bs ! 1)) OR push_bit 16 (ucast (bs ! 2))
       OR push_bit 24 (ucast (bs ! 3))"

text \<open>
  What the JavaScript engine does and the library only calls: the conversion of a double to
  its IEEE-754 single-precision bit pattern when a \<^verbatim>\<open>Float32Array\<close> element is stored, the
  widening of such a pattern to a double when it is read, \<^verbatim>\<open>ToNumber\<close> on a string or an
  object (\<open>None\<close> when the conversion throws), the text of a number that is not an
  integer of at most 2^53 in absolute value, and double arithmetic. They are parameters of
  the model.
\<close>

record platform =
  toFloat32 :: "jsnum \<Rightarrow> 32 word"
  fromFloat32 :: "32 word \<Rightarrow> jsnum"
  toNumber :: "jsval \<Rightarrow> jsnum option"
  otherNumberToString :: "rat \<Rightarrow> string"
  fadd :: "jsnum \<Rightarrow> jsnum \<Rightarrow> jsnum"
  fsub :: "jsnum \<Rightarrow> jsnum \<Rightarrow> jsnum"
  fmul :: "jsnum \<Rightarrow> jsnum \<Rightarrow> jsnum"
  fdiv :: "jsnum \<Rightarrow> jsnum \<Rightarrow> jsnum"
  fsqrt :: "jsnum \<Rightarrow> jsnum"

text \<open>
  \<^verbatim>\<open>serializeVector(vector)\<close>: \<^verbatim>\<open>new Float32Array(vector)\<close> converts every number to single
  precision and stores it in a fresh \<^verbatim>\<open>ArrayBuffer\<close>; \<^verbatim>\<open>Buffer.from(float32.buffer)\<close> is the
  view of all of it.
\<close>

definition serializeVector :: "platform \<Rightarrow> jsnum list \<Rightarrow> Buffer" where
  "serializeVector p vector =
     (let float32 = map (toFloat32 p) vector;
          buffer = concat (map le_bytes float32)
      in \<lparr>arrayBuffer = buffer, byteOffset = 0, byteLength = length buffer\<rparr>)"

text \<open>
  The errors the library and the platform raise. The messages of the source are in the
  comments; interpolated values are kept as arguments.
\<close>

datatype error =
    RangeError_offset
    \<comment> \<open>RangeError: start offset of Float32Array should be a multiple of 4\<close>
  | RangeError_length
    \<comment> \<open>RangeError: Invalid typed array length\<close>
  | VectorDimensionMismatch jsnum nat
    \<comment> \<open>Error: Vector dimension mismatch: expected <dimensions>, got <length>\<close>
  | VectorMustBeArray
    \<comment> \<open>Error: Vector must be an array\<close>
  | VectorInvalidNumbers
    \<comment> \<open>Error: Vector must contain only valid numbers\<close>
  | VectorsSameDimensions
    \<comment> \<open>Error: Vectors must have the same dimensions\<close>
  | InsertNoValues
    \<comment> \<open>Error: insertVec0: No values provided for insert\<close>
  | InsertManyNoRows
    \<comment> \<open>Error: insertManyVec0: No rows provided for insert\<close>
  | InsertManyNoValues
    \<comment> \<open>Error: insertManyVec0: No values provided for insert\<close>
  | UpdateNoValues
    \<comment> \<open>Error: updateVec0: No values provided for update\<close>
  | ToNumberThrows
    \<comment> \<open>what the conversion of an array element to a number throws, as
      TypeError: Cannot convert a Symbol value to a number\<close>

text \<open>
  \<^verbatim>\<open>deserializeVector(buffer)\<close>:
  \<^verbatim>\<open>new Float32Array(buffer.buffer, buffer.byteOffset, buffer.byteLength / 4)\<close> followed by
  \<^verbatim>\<open>Array.from\<close>. The typed-array constructor truncates the length argument to an integer,
  throws a RangeError when the offset is not a multiple of the element size, and throws a
  RangeError when the view would end after the underlying buffer.
\<close>

definition deserializeVector :: "platform \<Rightarrow> Buffer \<Rightarrow> error + jsnum list" where
  "deserializeVector p buffer =
     (let n = byteLength buffer div 4 in
      if byteOffset buffer mod 4 \<noteq> 0 then Inl RangeError_offset
      else if byteOffset buffer + 4 * n > length (arrayBuffer buffer) then Inl RangeError_length
      else Inr (map (\<lambda>i. fromFloat32 p (of_le_bytes
                  (take 4 (drop (byteOffset buffer + 4 * i) (arrayBuffer buffer))))) [0..<n]))"

section \<open>drizzle-orm: SQL fragments\<close>

text \<open>
  The query builder is the package \<^verbatim>\<open>drizzle-orm\<close>, which the library imports. What the
  library uses of it is modelled here: an \<^verbatim>\<open>SQL\<close> object is a list of chunks and a decoder
  for result values; building a query walks the chunks, copies string chunks, quotes names
  and columns, and turns every other value into the placeholder \<^verbatim>\<open>?\<close> and one bound
  parameter (SQLite dialect).
\<close>

record SQLiteColumn =
  columnTable :: string
  columnName :: string

datatype chunk =
    StringChunk string
  | Name string
  | ColumnChunk SQLiteColumn
  | Value jsval
  | SQLChunk "chunk list"

record SQL =
  queryChunks :: "chunk list"
  decoder :: "jsval \<Rightarrow> jsval"

record Query =
  sqlText :: string
  params :: "jsval list"

definition noopDecoder :: "jsval \<Rightarrow> jsval" where
  "noopDecoder v = v"

text \<open>\<^verbatim>\<open>new SQL(queryChunks)\<close>.\<close>

definition newSQL :: "chunk list \<Rightarrow> SQL" where
  "newSQL cs = \<lparr>queryChunks = cs, decoder = noopDecoder\<rparr>"

text \<open>An \<^verbatim>\<open>SQL\<close> object used as a chunk of another one: only its chunks are read.\<close>

definition nested :: "SQL \<Rightarrow> chunk" where
  "nested q = SQLChunk (queryChunks q)"

text \<open>
  The template tag \<^verbatim>\<open>sql`s0${p1}s1${p2}s2...`\<close>: the first string, then every parameter
  with the string that follows it. The first string is dropped when it is empty and there
  is no parameter.
\<close>

definition sql :: "string \<Rightarrow> (chunk \<times> string) list \<Rightarrow> SQL" where
  "sql s0 ps =
     newSQL ((if ps \<noteq> [] \<or> s0 \<noteq> [] then [StringChunk s0] else [])
             @ concat (map (\<lambda>(param, s). [param, StringChunk s]) ps))"

text \<open>\<^verbatim>\<open>sql.raw(str)\<close>, \<^verbatim>\<open>sql.identifier(value)\<close>.\<close>

definition sql_raw :: "string \<Rightarrow> SQL" where
  "sql_raw str = newSQL [StringChunk str]"

definition sql_identifier :: "string \<Rightarrow> chunk" where
  "sql_identifier v = Name v"

text \<open>\<^verbatim>\<open>sql.join(chunks, separator)\<close> and \<^verbatim>\<open>Array.prototype.join\<close>: the separator goes between.\<close>

fun intersperse :: "'a \<Rightarrow> 'a list \<Rightarrow> 'a list" where
  "intersperse sep [] = []"
| "intersperse sep [x] = [x]"
| "intersperse sep (x # y # ys) = x # sep # intersperse sep (y # ys)"

definition sql_join :: "chunk list \<Rightarrow> chunk \<Rightarrow> SQL" where
  "sql_join chunks separator = newSQL (intersperse separator chunks)"

definition joinStrings :: "string list \<Rightarrow> string \<Rightarrow> string" where
  "joinStrings xs separator = concat (intersperse separator xs)"

text \<open>\<^verbatim>\<open>q.append(query)\<close> pushes the chunks of \<^verbatim>\<open>query\<close>; \<^verbatim>\<open>q.mapWith(f)\<close> sets the decoder.\<close>

definition append_sql :: "SQL \<Rightarrow> SQL \<Rightarrow> SQL" where
  "append_sql q query = q\<lparr>queryChunks := queryChunks q @ queryChunks query\<rparr>"

definition mapWith :: "SQL \<Rightarrow> (jsval \<Rightarrow> jsval) \<Rightarrow> SQL" where
  "mapWith q f = q\<lparr>decoder := f\<rparr>"

text \<open>Building the query: \<^verbatim>\<open>escapeName\<close> of the SQLite dialect, \<^verbatim>\<open>mergeQueries\<close>, the chunks.\<close>

definition escapeName :: "string \<Rightarrow> string" where
  "escapeName n = [CHR 0x22] @ n @ [CHR 0x22]"

definition mergeQueries :: "Query list \<Rightarrow> Query" where
  "mergeQueries qs = \<lparr>sqlText = concat (map sqlText qs), params = concat (map params qs)\<rparr>"

text \<open>
  A value that is no chunk object: \<^verbatim>\<open>undefined\<close> renders as nothing, an array as the
  parenthesised list of its elements, anything else as one placeholder and one parameter.
\<close>

fun buildValue :: "jsval \<Rightarrow> Query" where
  "buildValue JUndefined = \<lparr>sqlText = [], params = []\<rparr>"
| "buildValue (JArr xs) =
     mergeQueries (\<lparr>sqlText = ''('', params = []\<rparr>
       # intersperse \<lparr>sqlText = '', '', params = []\<rparr> (map buildValue xs)
       @ [\<lparr>sqlText = '')'', params = []\<rparr>])"
| "buildValue v = \<lparr>sqlText = ''?'', params = [v]\<rparr>"

text \<open>A column renders as its quoted table name, a dot and its quoted name.\<close>

definition columnText :: "SQLiteColumn \<Rightarrow> string" where
  "columnText c = escapeName (columnTable c) @ ''.'' @ escapeName (columnName c)"

fun buildChunk :: "chunk \<Rightarrow> Query" where
  "buildChunk (StringChunk s) = \<lparr>sqlText = s, params = []\<rparr>"
| "buildChunk (Name n) = \<lparr>sqlText = escapeName n, params = []\<rparr>"
| "buildChunk (ColumnChunk c) = \<lparr>sqlText = columnText c, params = []\<rparr>"
| "buildChunk (Value v) = buildValue v"
| "buildChunk (SQLChunk cs) = mergeQueries (map buildChunk cs)"

definition toQuery :: "SQL \<Rightarrow> Query" where
  "toQuery q = mergeQueries (map buildChunk (queryChunks q))"

section \<open>query.ts: the match predicate and vector functions\<close>

text \<open>The argument \<^verbatim>\<open>column: string | SQLiteColumn\<close>.\<close>

datatype columnArg = ColumnString string | ColumnObject SQLiteColumn

definition vectorMatch :: "platform \<Rightarrow> columnArg \<Rightarrow> jsnum list \<Rightarrow> jsnum \<Rightarrow> SQL" where
  "vectorMatch p column queryVector k =
     (let columnName' = (case column of ColumnString s \<Rightarrow> s | ColumnObject c \<Rightarrow> columnName c);
          vectorBuffer = serializeVector p queryVector
      in mapWith
           (append_sql (sql_raw (columnName' @ '' MATCH ?''))
                       (sql '' AND k = '' [(Value (JNum k), [])]))
           (\<lambda>_. JBuf vectorBuffer))"

definition knnWhere :: "platform \<Rightarrow> string \<Rightarrow> jsnum list \<Rightarrow> jsnum \<Rightarrow> SQL" where
  "knnWhere p column queryVector k =
     (let vectorBuffer = serializeVector p queryVector
      in sql [] [(sql_identifier column, '' MATCH ''),
                 (Value (JBuf vectorBuffer), '' AND k = ''),
                 (Value (JNum k), [])])"

text \<open>An operand \<^verbatim>\<open>SQLiteColumn | number[] | SQL\<close> of a vector function.\<close>

datatype operand = Column SQLiteColumn | Array "jsnum list" | Expr SQL

definition toVectorSql :: "platform \<Rightarrow> operand \<Rightarrow> SQL" where
  "toVectorSql p v =
     (case v of
        Array xs \<Rightarrow> sql [] [(Value (JBuf (serializeVector p xs)), [])]
      | Expr q \<Rightarrow> q
      | Column c \<Rightarrow> sql [] [(ColumnChunk c, [])])"

definition vec_add :: "platform \<Rightarrow> operand \<Rightarrow> operand \<Rightarrow> SQL" where
  "vec_add p vec1 vec2 =
     (let v1 = toVectorSql p vec1; v2 = toVectorSql p vec2
      in sql ''vec_add('' [(nested v1, '', ''), (nested v2, '')'')])"

definition vec_sub :: "platform \<Rightarrow> operand \<Rightarrow> operand \<Rightarrow> SQL" where
  "vec_sub p vec1 vec2 =
     (let v1 = toVectorSql p vec1; v2 = toVectorSql p vec2
      in sql ''vec_sub('' [(nested v1, '', ''), (nested v2, '')'')])"

section \<open>virtual-table.ts: the schema builder\<close>

datatype columnType = TFloat | TInt8 | TBit | TInteger | TText | TBlob

datatype metric = L2 | cosine

text \<open>\<^verbatim>\<open>Vec0ColumnConfig\<close>. An optional field that is not set is \<open>None\<close>.\<close>

record Vec0ColumnConfig =
  name :: string
  ctype :: columnType
  dimensions :: "jsnum option"
  primaryKey :: "bool option"
  distanceMetric :: "metric option"

text \<open>
  \<^verbatim>\<open>Vec0ColumnBuilder\<close> holds a configuration and changes it; \<^verbatim>\<open>build()\<close> returns it. The
  methods \<^verbatim>\<open>primaryKey()\<close> and \<^verbatim>\<open>distanceMetric(metric)\<close> are \<open>primaryKey'\<close> and
  \<open>distanceMetric'\<close> here, the plain names being the fields.
\<close>

definition Vec0ColumnBuilder ::
  "string \<Rightarrow> columnType \<Rightarrow> jsnum option \<Rightarrow> Vec0ColumnConfig" where
  "Vec0ColumnBuilder n t d =
     \<lparr>name = n, ctype = t, dimensions = d, primaryKey = None, distanceMetric = None\<rparr>"

definition primaryKey' :: "Vec0ColumnConfig \<Rightarrow> Vec0ColumnConfig" where
  "primaryKey' b = b\<lparr>primaryKey := Some True\<rparr>"

definition distanceMetric' :: "Vec0ColumnConfig \<Rightarrow> metric \<Rightarrow> Vec0ColumnConfig" where
  "distanceMetric' b m = b\<lparr>distanceMetric := Some m\<rparr>"

definition build :: "Vec0ColumnConfig \<Rightarrow> Vec0ColumnConfig" where
  "build b = b"

definition vecFloat :: "string \<Rightarrow> jsnum \<Rightarrow> Vec0ColumnConfig" where
  "vecFloat n d = Vec0ColumnBuilder n TFloat (Some d)"

definition vecInt8 :: "string \<Rightarrow> jsnum \<Rightarrow> Vec0ColumnConfig" where
  "vecInt8 n d = Vec0ColumnBuilder n TInt8 (Some d)"

definition vecBit :: "string \<Rightarrow> jsnum \<Rightarrow> Vec0ColumnConfig" where
  "vecBit n d = Vec0ColumnBuilder n TBit (Some d)"

definition vecInteger :: "string \<Rightarrow> Vec0ColumnConfig" where
  "vecInteger n = Vec0ColumnBuilder n TInteger None"

definition vecText :: "string \<Rightarrow> Vec0ColumnConfig" where
  "vecText n = Vec0ColumnBuilder n TText None"

definition vecBlob :: "string \<Rightarrow> Vec0ColumnConfig" where
  "vecBlob n = Vec0ColumnBuilder n TBlob None"

text \<open>\<^verbatim>\<open>Vec0Table\<close>: the field \<^verbatim>\<open>name\<close> is \<open>tableName\<close> here.\<close>

record Vec0Table =
  tableName :: string
  columns :: "Vec0ColumnConfig list"

text \<open>
  \<^verbatim>\<open>vec0Table(name, columns)\<close>: the entries of the \<^verbatim>\<open>columns\<close> object in the order
  \<^verbatim>\<open>Object.entries\<close> gives them; a configuration with an empty name takes its key.
\<close>

definition vec0Table :: "string \<Rightarrow> (string \<times> Vec0ColumnConfig) list \<Rightarrow> Vec0Table" where
  "vec0Table n entries =
     \<lparr>tableName = n,
      columns = map (\<lambda>(key, builder).
                  let config = build builder
                  in if name config = [] then config\<lparr>name := key\<rparr> else config) entries\<rparr>"

text \<open>
  A number in a template string. An integer of at most 2^53 in absolute value is its
  decimal digits, with a minus sign below zero; NaN and the infinities have their names;
  the text of any other number is the platform's.
\<close>

definition digit :: "nat \<Rightarrow> char" where
  "digit d = ''0123456789'' ! d"

fun natToString :: "nat \<Rightarrow> string" where
  "natToString n = (if n < 10 then [digit n] else natToString (n div 10) @ [digit (n mod 10)])"

declare natToString.simps [simp del]

definition intToString :: "int \<Rightarrow> string" where
  "intToString i = (if i < 0 then ''-'' @ natToString (nat (- i)) else natToString (nat i))"

definition isSafeInteger :: "rat \<Rightarrow> bool" where
  "isSafeInteger r = (of_int \<lfloor>r\<rfloor> = r \<and> \<bar>r\<bar> \<le> 9007199254740992)"

definition numberToString :: "platform \<Rightarrow> jsnum \<Rightarrow> string" where
  "numberToString p n =
     (case n of
        NaN \<Rightarrow> ''NaN''
      | PosInfinity \<Rightarrow> ''Infinity''
      | NegInfinity \<Rightarrow> ''-Infinity''
      | Fin r \<Rightarrow> if isSafeInteger r then intToString \<lfloor>r\<rfloor> else otherNumberToString p r)"

text \<open>\<^verbatim>\<open>col.dimensions\<close> as a condition: \<^verbatim>\<open>undefined\<close>, 0 and NaN are falsy.\<close>

definition truthy :: "jsnum option \<Rightarrow> bool" where
  "truthy d =
     (case d of None \<Rightarrow> False | Some n \<Rightarrow> (case n of Fin r \<Rightarrow> r \<noteq> 0 | NaN \<Rightarrow> False | _ \<Rightarrow> True))"

definition dimensionsToString :: "platform \<Rightarrow> jsnum option \<Rightarrow> string" where
  "dimensionsToString p d = (case d of None \<Rightarrow> ''undefined'' | Some n \<Rightarrow> numberToString p n)"

definition metricToString :: "metric \<Rightarrow> string" where
  "metricToString m = (case m of L2 \<Rightarrow> ''L2'' | cosine \<Rightarrow> ''cosine'')"

definition metricSuffix :: "metric option \<Rightarrow> string" where
  "metricSuffix m =
     (case m of None \<Rightarrow> [] | Some x \<Rightarrow> '' distance_metric='' @ metricToString x)"

text \<open>The body of the \<^verbatim>\<open>columnConfigs.map\<close> callback in \<^verbatim>\<open>createSQL()\<close>.\<close>

definition columnDef :: "platform \<Rightarrow> Vec0ColumnConfig \<Rightarrow> string" where
  "columnDef p col =
     (if ctype col = TFloat \<and> truthy (dimensions col) then
        name col @ '' float['' @ dimensionsToString p (dimensions col) @ '']''
          @ metricSuffix (distanceMetric col)
      else if ctype col = TInt8 \<and> truthy (dimensions col) then
        name col @ '' int8['' @ dimensionsToString p (dimensions col) @ '']''
          @ metricSuffix (distanceMetric col)
      else if ctype col = TBit \<and> truthy (dimensions col) then
        name col @ '' bit['' @ dimensionsToString p (dimensions col) @ '']''
      else if ctype col = TInteger then
        name col @ '' integer'' @ (if primaryKey col = Some True then '' primary key'' else [])
      else if ctype col = TText then name col @ '' text''
      else if ctype col = TBlob then name col @ '' blob''
      else name col)"

definition createSQL :: "platform \<Rightarrow> Vec0Table \<Rightarrow> string" where
  "createSQL p t =
     ''CREATE VIRTUAL TABLE IF NOT EXISTS '' @ tableName t @ '' USING vec0(''
       @ joinStrings (map (columnDef p) (columns t)) '', '' @ '')''"

definition dropSQL :: "Vec0Table \<Rightarrow> string" where
  "dropSQL t = ''DROP TABLE IF EXISTS '' @ tableName t"

text \<open>The number a string of decimal digits denotes.\<close>

definition digitValue :: "char \<Rightarrow> nat" where
  "digitValue c = of_char c - 48"

definition decimalValue :: "string \<Rightarrow> nat" where
  "decimalValue s = foldl (\<lambda>a c. 10 * a + digitValue c) 0 s"

text \<open>
  No opening bracket of a string is followed by \<^verbatim>\<open>0]\<close>: after every one come two
  characters that are not these.
\<close>

fun noZeroBracket :: "string \<Rightarrow> bool" where
  "noZeroBracket [] = True"
| "noZeroBracket (c # cs) =
     ((if c = CHR ''['' then
         (case cs of c1 # c2 # _ \<Rightarrow> \<not> (c1 = CHR ''0'' \<and> c2 = CHR '']'') | _ \<Rightarrow> False)
       else True)
      \<and> noZeroBracket cs)"

section \<open>index.ts: the DML helpers\<close>

text \<open>
  A \<^verbatim>\<open>Record<string, unknown>\<close> is an object: the properties it holds itself and the
  properties it inherits from its prototype. Reading \<^verbatim>\<open>values[key]\<close> gives the object's
  own property if it has one, else the inherited one, else \<^verbatim>\<open>undefined\<close>.
\<close>

record record_values =
  own :: "string \<rightharpoonup> jsval"
  inherited :: "string \<rightharpoonup> jsval"

definition getProperty :: "record_values \<Rightarrow> string \<Rightarrow> jsval" where
  "getProperty r k =
     (case own r k of
        Some v \<Rightarrow> v
      | None \<Rightarrow> (case inherited r k of Some v \<Rightarrow> v | None \<Rightarrow> JUndefined))"

text \<open>
  An object literal inherits from \<^verbatim>\<open>Object.prototype\<close>, whose properties are functions
  (\<^verbatim>\<open>__proto__\<close> reads as the prototype itself).
\<close>

definition objectPrototype :: "string \<rightharpoonup> jsval" where
  "objectPrototype =
     map_of (map (\<lambda>k. (k, JObject))
       [''constructor'', ''hasOwnProperty'', ''isPrototypeOf'', ''propertyIsEnumerable'',
        ''toLocaleString'', ''toString'', ''valueOf'', ''__defineGetter__'',
        ''__defineSetter__'', ''__lookupGetter__'', ''__lookupSetter__'', ''__proto__''])"

definition objectLiteral :: "(string \<rightharpoonup> jsval) \<Rightarrow> record_values" where
  "objectLiteral props = \<lparr>own = props, inherited = objectPrototype\<rparr>"

definition isVectorColumn :: "Vec0ColumnConfig \<Rightarrow> bool" where
  "isVectorColumn config = (ctype config = TFloat \<or> ctype config = TInt8 \<or> ctype config = TBit)"

text \<open>
  The cast \<^verbatim>\<open>value as number[]\<close> checks nothing: \<^verbatim>\<open>new Float32Array(value)\<close> converts every
  element with \<^verbatim>\<open>ToNumber\<close>, which throws a TypeError on a Symbol and on a BigInt and may
  throw on an object. \<open>None\<close> is the throw.
\<close>

definition asNumber :: "platform \<Rightarrow> jsval \<Rightarrow> jsnum option" where
  "asNumber p v =
     (case v of
        JNum n \<Rightarrow> Some n
      | JUndefined \<Rightarrow> Some NaN
      | JNull \<Rightarrow> Some (Fin 0)
      | JBool b \<Rightarrow> Some (Fin (if b then 1 else 0))
      | JSymbol \<Rightarrow> None
      | JBigInt i \<Rightarrow> None
      | _ \<Rightarrow> toNumber p v)"

text \<open>\<^verbatim>\<open>serializeValue(value, config)\<close>.\<close>

definition serializeValue :: "platform \<Rightarrow> jsval \<Rightarrow> Vec0ColumnConfig \<Rightarrow> error + jsval" where
  "serializeValue p v config =
     (if v = JNull \<or> v = JUndefined then Inr JNull
      else case v of
        JArr xs \<Rightarrow>
          if isVectorColumn config then
            (case those (map (asNumber p) xs) of
               None \<Rightarrow> Inl ToNumberThrows
             | Some ns \<Rightarrow> Inr (JBuf (serializeVector p ns)))
          else Inr v
      | _ \<Rightarrow> Inr v)"

text \<open>The results of a loop whose body may throw: the first throw ends it.\<close>

fun collect :: "(error + 'a) list \<Rightarrow> error + 'a list" where
  "collect [] = Inr []"
| "collect (x # xs) =
     (case x of
        Inl e \<Rightarrow> Inl e
      | Inr v \<Rightarrow> (case collect xs of Inl e \<Rightarrow> Inl e | Inr vs \<Rightarrow> Inr (v # vs)))"

text \<open>The separator \<^verbatim>\<open>sql`, `\<close> and a value as its own fragment \<^verbatim>\<open>sql`${serialized}`\<close>.\<close>

definition comma :: chunk where
  "comma = nested (sql '', '' [])"

definition valueSql :: "jsval \<Rightarrow> SQL" where
  "valueSql serialized = sql [] [(Value serialized, [])]"


definition insertManyVec0 :: "platform \<Rightarrow> Vec0Table \<Rightarrow> record_values list \<Rightarrow> error + SQL" where
  "insertManyVec0 p table rows =
     (case rows of
        [] \<Rightarrow> Inl InsertManyNoRows
      | firstRow # _ \<Rightarrow>
          (let columnConfigs =
                 filter (\<lambda>col. getProperty firstRow (name col) \<noteq> JUndefined) (columns table);
               columns' = map name columnConfigs
           in if length columns' = 0 then Inl InsertManyNoValues
              else
                (let columnList = sql_join (map sql_identifier columns') comma
                 in case collect (map (\<lambda>row.
                           case collect (map (\<lambda>col.
                                  serializeValue p (getProperty row (name col)) col)
                                  columnConfigs) of
                             Inl e \<Rightarrow> Inl e
                           | Inr serialized \<Rightarrow>
                               (let sqlValues = map valueSql serialized
                                in Inr (sql ''(''
                                     [(nested (sql_join (map nested sqlValues) comma), '')'')])))
                           rows) of
                      Inl e \<Rightarrow> Inl e
                    | Inr valueSets \<Rightarrow>
                        Inr (sql ''INSERT INTO ''
                               [(sql_identifier (tableName table), '' (''),
                                (nested columnList, '') VALUES ''),
                                (nested (sql_join (map nested valueSets) comma), [])]))))"

text \<open>\<^verbatim>\<open>Vec0WhereCondition = number | SQL\<close>.\<close>

datatype whereCondition = RowId jsnum | Condition SQL

definition whereClause :: "whereCondition \<Rightarrow> SQL" where
  "whereClause w =
     (case w of RowId n \<Rightarrow> sql ''rowid = '' [(Value (JNum n), [])] | Condition q \<Rightarrow> q)"

definition deleteVec0 :: "Vec0Table \<Rightarrow> whereCondition \<Rightarrow> SQL" where
  "deleteVec0 table w =
     sql ''DELETE FROM '' [(sql_identifier (tableName table), '' WHERE ''),
                           (nested (whereClause w), [])]"


text \<open>
  For the statements: the columns of a table with a defined value in a row, a value map
  that holds a defined value for a name itself, a row that inherits no property named
  like a column, and a row whose values at the given columns all convert.
\<close>

definition presentColumns :: "Vec0Table \<Rightarrow> record_values \<Rightarrow> Vec0ColumnConfig list" where
  "presentColumns t r = filter (\<lambda>col. getProperty r (name col) \<noteq> JUndefined) (columns t)"

definition definedIn :: "record_values \<Rightarrow> string \<Rightarrow> bool" where
  "definedIn r k = (case own r k of None \<Rightarrow> False | Some v \<Rightarrow> v \<noteq> JUndefined)"

definition inheritsNone :: "Vec0Table \<Rightarrow> record_values \<Rightarrow> bool" where
  "inheritsNone t r = list_all (\<lambda>col. inherited r (name col) = None) (columns t)"

definition converts :: "platform \<Rightarrow> Vec0ColumnConfig list \<Rightarrow> record_values \<Rightarrow> bool" where
  "converts p cols r =
     list_all (\<lambda>col. \<not> isl (serializeValue p (getProperty r (name col)) col)) cols"

section \<open>types.ts: vector utilities\<close>

text \<open>\<^verbatim>\<open>values.length !== dimensions\<close>: a length is a number; it differs from every NaN.\<close>

definition lengthOf :: "'a list \<Rightarrow> jsnum" where
  "lengthOf xs = Fin (of_nat (length xs))"

definition typedVector :: "jsnum \<Rightarrow> jsnum list \<Rightarrow> error + jsnum list" where
  "typedVector dims vals =
     (if lengthOf vals \<noteq> dims then Inl (VectorDimensionMismatch dims (length vals))
      else Inr vals)"

text \<open>The callback of \<^verbatim>\<open>value.every\<close>: \<^verbatim>\<open>typeof v === 'number' && !isNaN(v)\<close>.\<close>

definition validNumber :: "jsval \<Rightarrow> bool" where
  "validNumber v = (case v of JNum n \<Rightarrow> \<not> isNaN n | _ \<Rightarrow> False)"

definition validateVector :: "jsval \<Rightarrow> jsnum option \<Rightarrow> error + bool" where
  "validateVector v dims =
     (case v of
        JArr xs \<Rightarrow>
          if \<not> list_all validNumber xs then Inl VectorInvalidNumbers
          else (case dims of
                  Some d \<Rightarrow>
                    if lengthOf xs \<noteq> d then Inl (VectorDimensionMismatch d (length xs))
                    else Inr True
                | None \<Rightarrow> Inr True)
      | _ \<Rightarrow> Inl VectorMustBeArray)"

text \<open>The distance functions: the check of the lengths, then the loop over the indices.\<close>

definition l2Distance :: "platform \<Rightarrow> jsnum list \<Rightarrow> jsnum list \<Rightarrow> error + jsnum" where
  "l2Distance p a b =
     (if length a \<noteq> length b then Inl VectorsSameDimensions
      else Inr (fsqrt p (fold (\<lambda>i sum. let diff = fsub p (a ! i) (b ! i)
                                        in fadd p sum (fmul p diff diff))
                              [0..<length a] (Fin 0))))"

definition cosineSimilarity :: "platform \<Rightarrow> jsnum list \<Rightarrow> jsnum list \<Rightarrow> error + jsnum" where
  "cosineSimilarity p a b =
     (if length a \<noteq> length b then Inl VectorsSameDimensions
      else
        (let (dotProduct, normA, normB) =
               fold (\<lambda>i (d, na, nb).
                       (fadd p d (fmul p (a ! i) (b ! i)),
                        fadd p na (fmul p (a ! i) (a ! i)),
                        fadd p nb (fmul p (b ! i) (b ! i))))
                    [0..<length a] (Fin 0, Fin 0, Fin 0);
             magnitude = fmul p (fsqrt p normA) (fsqrt p normB)
         in Inr (if magnitude = Fin 0 then Fin 0 else fdiv p dotProduct magnitude)))"

definition cosineDistance :: "platform \<Rightarrow> jsnum list \<Rightarrow> jsnum list \<Rightarrow> error + jsnum" where
  "cosineDistance p a b =
     (case cosineSimilarity p a b of Inl e \<Rightarrow> Inl e | Inr s \<Rightarrow> Inr (fsub p (Fin 1) s))"

definition dotProduct :: "platform \<Rightarrow> jsnum list \<Rightarrow> jsnum list \<Rightarrow> error + jsnum" where
  "dotProduct p a b =
     (if length a \<noteq> length b then Inl VectorsSameDimensions
      else Inr (fold (\<lambda>i sum. fadd p sum (fmul p (a ! i) (b ! i))) [0..<length a] (Fin 0)))"

section \<open>A platform for concrete inputs\<close>

text \<open>
  Every statement below holds for every platform. Where one is evaluated at a concrete
  input, this platform is used. Its single-precision patterns are the right ones for 0, 1,
  2, -1, the infinities and NaN, the numbers of the examples; every other operation is
  constant, and nothing depends on it.
\<close>

definition examplePlatform :: platform where
  "examplePlatform =
     \<lparr>toFloat32 = (\<lambda>x. case x of
          Fin r \<Rightarrow> if r = 0 then 0 else if r = 1 then 0x3F800000
                   else if r = 2 then 0x40000000 else if r = - 1 then 0xBF800000
                   else 0x7FC00000
        | PosInfinity \<Rightarrow> 0x7F800000
        | NegInfinity \<Rightarrow> 0xFF800000
        | NaN \<Rightarrow> 0x7FC00000),
      fromFloat32 = (\<lambda>_. Fin 0), toNumber = (\<lambda>_. Some NaN),
      otherNumberToString = (\<lambda>_. ''NaN''),
      fadd = (\<lambda>_ _. Fin 0), fsub = (\<lambda>_ _. Fin 0), fmul = (\<lambda>_ _. Fin 0),
      fdiv = (\<lambda>_ _. Fin 0), fsqrt = (\<lambda>_. Fin 0)\<rparr>"

section \<open>The codec: lemmas\<close>

lemma length_le_bytes: "length (le_bytes w) = 4"
  by (simp add: le_bytes_def)

lemma of_le_bytes_le_bytes: "of_le_bytes (le_bytes w) = w"
proof (rule bit_word_eqI)
  fix n assume "n < LENGTH(32)"
  then have n: "n < 32" by simp
  consider "n < 8" | "8 \<le> n" "n < 16" | "16 \<le> n" "n < 24" | "24 \<le> n" "n < 32"
    using n by linarith
  then show "bit (of_le_bytes (le_bytes w)) n = bit w n"
    by cases (auto simp: of_le_bytes_def le_bytes_def bit_simps)
qed

lemma length_concat_le_bytes:
  "length (concat (map (\<lambda>x. le_bytes (f x)) xs)) = 4 * length xs"
  by (induction xs) (simp_all add: length_le_bytes)

lemma chunk_concat_le_bytes:
  "i < length xs \<Longrightarrow>
   take 4 (drop (4 * i) (concat (map (\<lambda>x. le_bytes (f x)) xs))) = le_bytes (f (xs ! i))"
proof (induction xs arbitrary: i)
  case Nil
  then show ?case by simp
next
  case (Cons x xs)
  show ?case
  proof (cases i)
    case 0
    then show ?thesis by (simp add: length_le_bytes)
  next
    case (Suc j)
    with Cons.prems have "j < length xs" by simp
    from Cons.IH [OF this] Suc show ?thesis by (simp add: length_le_bytes)
  qed
qed

lemma serializeVector_fields:
  "arrayBuffer (serializeVector p v) = concat (map (\<lambda>x. le_bytes (toFloat32 p x)) v)"
  "byteOffset (serializeVector p v) = 0"
  "byteLength (serializeVector p v) = 4 * length v"
  by (simp_all add: serializeVector_def Let_def comp_def length_concat_le_bytes)

lemma bufferBytes_serializeVector:
  "bufferBytes (serializeVector p v) = concat (map (\<lambda>x. le_bytes (toFloat32 p x)) v)"
  by (simp add: bufferBytes_def serializeVector_fields length_concat_le_bytes)

lemma deserializeVector_aligned:
  assumes "byteOffset b mod 4 = 0"
    and "byteOffset b + byteLength b \<le> length (arrayBuffer b)"
  shows "\<exists>v. deserializeVector p b = Inr v \<and> length v = byteLength b div 4"
proof -
  have "byteOffset b + 4 * (byteLength b div 4) \<le> length (arrayBuffer b)"
    using assms(2) by presburger
  then show ?thesis using assms(1) by (simp add: deserializeVector_def Let_def)
qed

text \<open>
  Decoding what was encoded gives, element by element, the stored single-precision pattern
  of the input read back as a double; the length is the input's. What the conversion does
  to a NaN, an infinity or a value out of range is the platform's.
\<close>

lemma deserialize_serialize:
  "deserializeVector p (serializeVector p v) = Inr (map (\<lambda>x. fromFloat32 p (toFloat32 p x)) v)"
proof -
  have "map (\<lambda>i. fromFloat32 p (of_le_bytes
              (take 4 (drop (4 * i) (concat (map (\<lambda>x. le_bytes (toFloat32 p x)) v))))))
            [0..<length v]
        = map (\<lambda>x. fromFloat32 p (toFloat32 p x)) v"
    by (rule nth_equalityI) (simp_all add: chunk_concat_le_bytes of_le_bytes_le_bytes)
  then show ?thesis
    by (simp add: deserializeVector_def serializeVector_fields length_concat_le_bytes Let_def)
qed

text \<open>
  The layout \<^verbatim>\<open>serializeVector\<close> writes is in \<open>serializeVector_fields\<close> and
  \<open>bufferBytes_serializeVector\<close>: four little-endian bytes of the single-precision pattern
  of every element, in input order, \<open>4 * n\<close> bytes in all and none for the empty vector. On
  a view that starts at a multiple of four, \<^verbatim>\<open>deserializeVector\<close> returns
  \<open>byteLength div 4\<close> elements and drops a trailing remainder
  (\<open>deserializeVector_aligned\<close>).
\<close>

text \<open>
  Claim C3. \<^verbatim>\<open>deserializeVector\<close> should return \<open>byteLength div 4\<close> elements on any byte
  sequence. On a \<^verbatim>\<open>Buffer\<close> of eight bytes that starts at offset 1 of its \<^verbatim>\<open>ArrayBuffer\<close> the
  typed-array constructor throws a RangeError, and no element is returned.
\<close>

theorem deserializeVector_unaligned_offset:
  "deserializeVector p \<lparr>arrayBuffer = [0, 0, 0, 0, 0, 0, 0, 0, 0], byteOffset = 1, byteLength = 8\<rparr>
     = Inl RangeError_offset"
  by (simp add: deserializeVector_def)

section \<open>SQL fragments: lemmas\<close>

lemma sqlText_mergeQueries [simp]: "sqlText (mergeQueries qs) = concat (map sqlText qs)"
  by (simp add: mergeQueries_def)

lemma params_mergeQueries [simp]: "params (mergeQueries qs) = concat (map params qs)"
  by (simp add: mergeQueries_def)

lemma buildChunk_nested: "buildChunk (nested q) = toQuery q"
  by (simp add: nested_def toQuery_def)

lemma queryChunks_sql:
  "queryChunks (sql s0 ((c, s) # ps))
     = StringChunk s0 # c # StringChunk s # concat (map (\<lambda>(param, s). [param, StringChunk s]) ps)"
  "queryChunks (sql (x # xs) []) = [StringChunk (x # xs)]"
  by (simp_all add: sql_def newSQL_def)

lemma toQuery_sql1:
  "toQuery (sql s0 [(c, s1)])
     = \<lparr>sqlText = s0 @ sqlText (buildChunk c) @ s1, params = params (buildChunk c)\<rparr>"
  by (simp add: toQuery_def queryChunks_sql mergeQueries_def)

lemma toQuery_sql2:
  "toQuery (sql s0 [(c1, s1), (c2, s2)])
     = \<lparr>sqlText = s0 @ sqlText (buildChunk c1) @ s1 @ sqlText (buildChunk c2) @ s2,
        params = params (buildChunk c1) @ params (buildChunk c2)\<rparr>"
  by (simp add: toQuery_def queryChunks_sql mergeQueries_def)

lemma toQuery_sql3:
  "toQuery (sql s0 [(c1, s1), (c2, s2), (c3, s3)])
     = \<lparr>sqlText = s0 @ sqlText (buildChunk c1) @ s1 @ sqlText (buildChunk c2) @ s2
                  @ sqlText (buildChunk c3) @ s3,
        params = params (buildChunk c1) @ params (buildChunk c2) @ params (buildChunk c3)\<rparr>"
  by (simp add: toQuery_def queryChunks_sql mergeQueries_def)

lemma map_intersperse: "map f (intersperse sep xs) = intersperse (f sep) (map f xs)"
  by (induction sep xs rule: intersperse.induct) simp_all

lemma concat_intersperse_Nil: "concat (intersperse [] xs) = concat xs"
  by (induction "[] :: 'a list" xs rule: intersperse.induct) simp_all

lemma buildChunk_comma: "buildChunk comma = \<lparr>sqlText = '', '', params = []\<rparr>"
  by (simp add: comma_def buildChunk_nested toQuery_def queryChunks_sql mergeQueries_def)

lemma toQuery_sql_join_comma:
  "toQuery (sql_join cs comma)
     = \<lparr>sqlText = joinStrings (map (\<lambda>c. sqlText (buildChunk c)) cs) '', '',
        params = concat (map (\<lambda>c. params (buildChunk c)) cs)\<rparr>"
proof -
  have "map sqlText (map buildChunk (intersperse comma cs))
          = intersperse '', '' (map (\<lambda>c. sqlText (buildChunk c)) cs)"
    by (simp add: map_intersperse buildChunk_comma comp_def)
  moreover have "concat (map params (map buildChunk (intersperse comma cs)))
          = concat (map (\<lambda>c. params (buildChunk c)) cs)"
    by (simp add: map_intersperse buildChunk_comma comp_def concat_intersperse_Nil)
  ultimately show ?thesis
    by (simp add: toQuery_def sql_join_def newSQL_def mergeQueries_def joinStrings_def)
qed

lemma toQuery_valueSql: "toQuery (valueSql v) = buildValue v"
  by (simp add: valueSql_def toQuery_sql1)

section \<open>Evaluation on concrete tables\<close>

lemmas builder_defs = vec0Table_def build_def primaryKey'_def distanceMetric'_def vecInteger_def
  vecFloat_def vecInt8_def vecBit_def vecText_def vecBlob_def Vec0ColumnBuilder_def

lemmas render_defs = createSQL_def columnDef_def joinStrings_def truthy_def
  dimensionsToString_def numberToString_def isSafeInteger_def intToString_def
  natToString.simps digit_def metricSuffix_def metricToString_def

section \<open>The match predicate and the vector functions: statements\<close>

lemma toQuery_toVectorSql:
  "toQuery (toVectorSql p (Array xs)) = \<lparr>sqlText = ''?'', params = [JBuf (serializeVector p xs)]\<rparr>"
  "toQuery (toVectorSql p (Column c)) = \<lparr>sqlText = columnText c, params = []\<rparr>"
  "toQuery (toVectorSql p (Expr q)) = toQuery q"
  by (simp_all add: toVectorSql_def toQuery_sql1)

lemma toQuery_vec_add:
  "toQuery (vec_add p a b)
     = \<lparr>sqlText = ''vec_add('' @ sqlText (toQuery (toVectorSql p a)) @ '', ''
                   @ sqlText (toQuery (toVectorSql p b)) @ '')'',
        params = params (toQuery (toVectorSql p a)) @ params (toQuery (toVectorSql p b))\<rparr>"
  by (simp add: vec_add_def Let_def toQuery_sql2 buildChunk_nested)

lemma toQuery_vec_sub:
  "toQuery (vec_sub p a b)
     = \<lparr>sqlText = ''vec_sub('' @ sqlText (toQuery (toVectorSql p a)) @ '', ''
                   @ sqlText (toQuery (toVectorSql p b)) @ '')'',
        params = params (toQuery (toVectorSql p a)) @ params (toQuery (toVectorSql p b))\<rparr>"
  by (simp add: vec_sub_def Let_def toQuery_sql2 buildChunk_nested)

text \<open>
  Claim C5. The parameters of \<^verbatim>\<open>vec_add\<close> and \<^verbatim>\<open>vec_sub\<close> follow the shape of the operands:
  two arrays bind two parameters, a column and an array bind one (in either order), two
  columns bind none. An array operand is the placeholder \<^verbatim>\<open>?\<close> in the text and its
  serialized bytes in the parameter list, at the same position; a column is its quoted
  name in the text and no parameter.
\<close>

theorem vec_add_sub_parameters:
  "toQuery (vec_add p (Array x) (Array y))
     = \<lparr>sqlText = ''vec_add(?, ?)'',
        params = [JBuf (serializeVector p x), JBuf (serializeVector p y)]\<rparr>
   \<and> toQuery (vec_add p (Column c) (Array y))
     = \<lparr>sqlText = ''vec_add('' @ columnText c @ '', ?)'', params = [JBuf (serializeVector p y)]\<rparr>
   \<and> toQuery (vec_add p (Array x) (Column c))
     = \<lparr>sqlText = ''vec_add(?, '' @ columnText c @ '')'', params = [JBuf (serializeVector p x)]\<rparr>
   \<and> toQuery (vec_add p (Column c) (Column d))
     = \<lparr>sqlText = ''vec_add('' @ columnText c @ '', '' @ columnText d @ '')'', params = []\<rparr>
   \<and> toQuery (vec_sub p (Array x) (Array y))
     = \<lparr>sqlText = ''vec_sub(?, ?)'',
        params = [JBuf (serializeVector p x), JBuf (serializeVector p y)]\<rparr>
   \<and> toQuery (vec_sub p (Column c) (Array y))
     = \<lparr>sqlText = ''vec_sub('' @ columnText c @ '', ?)'', params = [JBuf (serializeVector p y)]\<rparr>
   \<and> toQuery (vec_sub p (Array x) (Column c))
     = \<lparr>sqlText = ''vec_sub(?, '' @ columnText c @ '')'', params = [JBuf (serializeVector p x)]\<rparr>
   \<and> toQuery (vec_sub p (Column c) (Column d))
     = \<lparr>sqlText = ''vec_sub('' @ columnText c @ '', '' @ columnText d @ '')'', params = []\<rparr>"
  by (simp add: toQuery_vec_add toQuery_vec_sub toQuery_toVectorSql)

text \<open>
  The two match helpers. \<^verbatim>\<open>knnWhere\<close> binds the serialized vector and then \<^verbatim>\<open>k\<close>.
  \<^verbatim>\<open>vectorMatch\<close> writes the first placeholder as raw text and hands the vector to
  \<^verbatim>\<open>mapWith\<close>, which sets the decoder of result values: its text has two placeholders and
  its parameter list has \<^verbatim>\<open>k\<close> alone.
\<close>

lemma toQuery_knnWhere:
  "toQuery (knnWhere p column v k)
     = \<lparr>sqlText = escapeName column @ '' MATCH ? AND k = ?'',
        params = [JBuf (serializeVector p v), JNum k]\<rparr>"
  by (simp add: knnWhere_def Let_def toQuery_sql3 sql_identifier_def)

lemma toQuery_vectorMatch:
  "toQuery (vectorMatch p column v k)
     = \<lparr>sqlText = (case column of ColumnString s \<Rightarrow> s | ColumnObject c \<Rightarrow> columnName c)
                    @ '' MATCH ? AND k = ?'',
        params = [JNum k]\<rparr>"
  by (simp add: vectorMatch_def Let_def mapWith_def append_sql_def sql_raw_def newSQL_def
      toQuery_def queryChunks_sql mergeQueries_def)

text \<open>
  Claim C1. Both match helpers should render \<^verbatim>\<open><column> MATCH ? AND k = ?\<close> with two bound
  parameters, the serialized vector and then \<^verbatim>\<open>k\<close>. For \<^verbatim>\<open>vectorMatch\<close> on the column
  \<^verbatim>\<open>embedding\<close>, the vector \<^verbatim>\<open>[1, 0, 0, 0]\<close> and \<^verbatim>\<open>k = 3\<close> the text has the two placeholders
  and the parameter list is \<^verbatim>\<open>[3]\<close>: one parameter, and no vector among them.
\<close>

theorem vectorMatch_binds_only_k:
  "toQuery (vectorMatch p (ColumnString ''embedding'') [Fin 1, Fin 0, Fin 0, Fin 0] (Fin 3))
     = \<lparr>sqlText = ''embedding MATCH ? AND k = ?'', params = [JNum (Fin 3)]\<rparr>
   \<and> toQuery (vectorMatch p
         (ColumnObject \<lparr>columnTable = ''items_vec'', columnName = ''embedding''\<rparr>)
         [Fin 1, Fin 0, Fin 0, Fin 0] (Fin 3))
     = \<lparr>sqlText = ''embedding MATCH ? AND k = ?'', params = [JNum (Fin 3)]\<rparr>
   \<and> length (params (toQuery
        (vectorMatch p (ColumnString ''embedding'') [Fin 1, Fin 0, Fin 0, Fin 0] (Fin 3)))) = 1"
  by (simp add: toQuery_vectorMatch)

section \<open>The DML helpers: statements\<close>


lemma collect_map:
  assumes "\<And>x. x \<in> set xs \<Longrightarrow> isl (f x) \<Longrightarrow> f x = Inl E"
  shows "collect (map f xs)
     = (if list_all (\<lambda>x. \<not> isl (f x)) xs then Inr (map (\<lambda>x. projr (f x)) xs) else Inl E)"
  using assms
proof (induction xs)
  case Nil
  then show ?case by simp
next
  case (Cons x xs)
  then have IH: "collect (map f xs)
     = (if list_all (\<lambda>x. \<not> isl (f x)) xs then Inr (map (\<lambda>x. projr (f x)) xs) else Inl E)"
    by simp
  show ?case
  proof (cases "f x")
    case (Inl e)
    with Cons.prems [of x] have "f x = Inl E" by simp
    then show ?thesis by simp
  next
    case (Inr v)
    with IH show ?thesis by simp
  qed
qed

lemma serializeValue_error:
  "isl (serializeValue p v c) \<Longrightarrow> serializeValue p v c = Inl ToNumberThrows"
  by (auto simp: serializeValue_def split: if_splits jsval.splits option.splits)


lemma collect_serializeValue:
  "collect (map (\<lambda>col. serializeValue p (getProperty r (name col)) col) cols)
     = (if converts p cols r
        then Inr (map (\<lambda>col. projr (serializeValue p (getProperty r (name col)) col)) cols)
        else Inl ToNumberThrows)"
  unfolding converts_def by (rule collect_map) (rule serializeValue_error)


lemma present_defined:
  "inheritsNone t r \<Longrightarrow>
   presentColumns t r = filter (\<lambda>col. definedIn r (name col)) (columns t)"
  unfolding presentColumns_def inheritsNone_def list_all_iff
  by (rule filter_cong) (auto simp: getProperty_def definedIn_def split: option.splits)



lemma insertManyVec0_cases:
  fixes p t r rs
  defines "cols \<equiv> presentColumns t r"
  defines "tuple \<equiv> \<lambda>row. sql ''(''
      [(nested (sql_join (map nested (map valueSql
          (map (\<lambda>col. projr (serializeValue p (getProperty row (name col)) col)) cols))) comma),
        '')'')]"
  shows "insertManyVec0 p t (r # rs)
     = (if cols = [] then Inl InsertManyNoValues
        else if \<not> list_all (converts p cols) (r # rs) then Inl ToNumberThrows
        else Inr (sql ''INSERT INTO ''
                    [(sql_identifier (tableName t), '' (''),
                     (nested (sql_join (map sql_identifier (map name cols)) comma), '') VALUES ''),
                     (nested (sql_join (map nested (map tuple (r # rs))) comma), [])]))"
proof -
  let ?g = "\<lambda>row. if converts p cols row then Inr (tuple row) else Inl ToNumberThrows"
  have inner: "(case collect (map (\<lambda>col. serializeValue p (getProperty row (name col)) col) cols) of
                  Inl e \<Rightarrow> Inl e
                | Inr serialized \<Rightarrow>
                    (let sqlValues = map valueSql serialized
                     in Inr (sql ''(''
                          [(nested (sql_join (map nested sqlValues) comma), '')'')])))
                = ?g row" for row
    by (simp add: collect_serializeValue tuple_def)
  have outer: "collect (map ?g (r # rs))
      = (if list_all (\<lambda>row. \<not> isl (?g row)) (r # rs)
         then Inr (map (\<lambda>row. projr (?g row)) (r # rs)) else Inl ToNumberThrows)"
    by (rule collect_map) (simp split: if_splits)
  have all: "list_all (\<lambda>row. \<not> isl (?g row)) (r # rs) \<longleftrightarrow> list_all (converts p cols) (r # rs)"
    by (simp add: list_all_iff)
  have vals: "map (\<lambda>row. projr (?g row)) (r # rs) = map tuple (r # rs)"
    if "list_all (converts p cols) (r # rs)"
    using that by (intro map_cong refl) (auto simp: list_all_iff)
  have "collect (map ?g (r # rs))
      = (if list_all (converts p cols) (r # rs) then Inr (map tuple (r # rs))
         else Inl ToNumberThrows)"
    using outer all vals by presburger
  then show ?thesis
    unfolding insertManyVec0_def
    by (simp add: Let_def inner cols_def [symmetric, unfolded presentColumns_def]
        del: collect.simps list.map)
qed



lemma serializeValue_numbers:
  "isVectorColumn c \<Longrightarrow>
   serializeValue p (JArr (map JNum ns)) c = Inr (JBuf (serializeVector p ns))"
proof -
  have "those (map (asNumber p) (map JNum ns)) = Some ns"
    by (induction ns) (simp_all add: asNumber_def)
  then show "isVectorColumn c \<Longrightarrow> ?thesis" by (simp add: serializeValue_def)
qed




lemma objectPrototype_embedding: "objectPrototype ''embedding'' = None"
  "objectPrototype ''id'' = None" "objectPrototype ''title'' = None"
  "objectPrototype ''constructor'' = Some JObject"
  by (simp_all add: objectPrototype_def)



lemma toQuery_insertManyVec0:
  fixes p t r rs
  defines "cols \<equiv> presentColumns t r"
  defines "cell \<equiv> \<lambda>row c. buildValue (projr (serializeValue p (getProperty row (name c)) c))"
  assumes "cols \<noteq> []" and "list_all (converts p cols) (r # rs)"
  shows "\<exists>q. insertManyVec0 p t (r # rs) = Inr q
     \<and> sqlText (toQuery q)
         = ''INSERT INTO '' @ escapeName (tableName t) @ '' (''
           @ joinStrings (map (\<lambda>c. escapeName (name c)) cols) '', ''
           @ '') VALUES ''
           @ joinStrings
               (map (\<lambda>row. ''('' @ joinStrings (map (\<lambda>c. sqlText (cell row c)) cols) '', '' @ '')'')
                    (r # rs)) '', ''
     \<and> params (toQuery q)
         = concat (map (\<lambda>row. concat (map (\<lambda>c. params (cell row c)) cols)) (r # rs))"
  using assms(3,4) unfolding cols_def cell_def
  by (simp add: insertManyVec0_cases toQuery_sql3 toQuery_sql1 buildChunk_nested
      toQuery_sql_join_comma toQuery_valueSql sql_identifier_def comp_def)

text \<open>
  Claim C7, amended. For a first row that inherits no property named like a declared
  column, and rows whose values all convert: the columns of the statement are the declared
  columns with a defined value in the first row, in declared order, and every row is one
  tuple of the values it has at these columns, in this order, whatever columns the row
  itself has. A column that a row neither holds nor inherits is the placeholder \<^verbatim>\<open>?\<close> bound
  to null, as is a null; a number, a string, a boolean or a buffer is bound as it is, and
  an array of numbers in a vector column as its serialized bytes.
\<close>

theorem insertManyVec0_first_row_governs:
  "(inheritsNone t firstRow
      \<and> cols = filter (\<lambda>col. definedIn firstRow (name col)) (columns t) \<and> cols \<noteq> []
      \<and> list_all (converts p cols) (firstRow # rest)
    \<longrightarrow>
    (\<exists>q. insertManyVec0 p t (firstRow # rest) = Inr q
      \<and> sqlText (toQuery q)
          = ''INSERT INTO '' @ escapeName (tableName t) @ '' (''
            @ joinStrings (map (\<lambda>c. escapeName (name c)) cols) '', ''
            @ '') VALUES ''
            @ joinStrings
                (map (\<lambda>row. ''(''
                   @ joinStrings
                       (map (\<lambda>c. sqlText (buildValue
                               (projr (serializeValue p (getProperty row (name c)) c))))
                            cols) '', ''
                   @ '')'')
                 (firstRow # rest)) '', ''
      \<and> params (toQuery q)
          = concat (map (\<lambda>row.
              concat (map (\<lambda>c. params (buildValue
                              (projr (serializeValue p (getProperty row (name c)) c))))
                          cols))
              (firstRow # rest))))
   \<and> (own row k = None \<and> inherited row k = None \<longrightarrow> getProperty row k = JUndefined)
   \<and> serializeValue p JUndefined c = Inr JNull
   \<and> serializeValue p JNull c = Inr JNull
   \<and> (isVectorColumn c \<longrightarrow>
        serializeValue p (JArr (map JNum ns)) c = Inr (JBuf (serializeVector p ns)))
   \<and> serializeValue p (JNum n) c = Inr (JNum n)
   \<and> serializeValue p (JStr s) c = Inr (JStr s)
   \<and> serializeValue p (JBool b) c = Inr (JBool b)
   \<and> serializeValue p (JBuf buf) c = Inr (JBuf buf)
   \<and> buildValue JNull = \<lparr>sqlText = ''?'', params = [JNull]\<rparr>
   \<and> buildValue (JNum n) = \<lparr>sqlText = ''?'', params = [JNum n]\<rparr>
   \<and> buildValue (JStr s) = \<lparr>sqlText = ''?'', params = [JStr s]\<rparr>
   \<and> buildValue (JBool b) = \<lparr>sqlText = ''?'', params = [JBool b]\<rparr>
   \<and> buildValue (JBuf buf) = \<lparr>sqlText = ''?'', params = [JBuf buf]\<rparr>"
proof -
  have main: "\<exists>q. insertManyVec0 p t (firstRow # rest) = Inr q
      \<and> sqlText (toQuery q)
          = ''INSERT INTO '' @ escapeName (tableName t) @ '' (''
            @ joinStrings (map (\<lambda>c. escapeName (name c)) cols) '', ''
            @ '') VALUES ''
            @ joinStrings
                (map (\<lambda>row. ''(''
                   @ joinStrings
                       (map (\<lambda>c. sqlText (buildValue
                               (projr (serializeValue p (getProperty row (name c)) c))))
                            cols) '', ''
                   @ '')'')
                 (firstRow # rest)) '', ''
      \<and> params (toQuery q)
          = concat (map (\<lambda>row.
              concat (map (\<lambda>c. params (buildValue
                              (projr (serializeValue p (getProperty row (name c)) c))))
                          cols))
              (firstRow # rest))"
    if h: "inheritsNone t firstRow
      \<and> cols = filter (\<lambda>col. definedIn firstRow (name col)) (columns t) \<and> cols \<noteq> []
      \<and> list_all (converts p cols) (firstRow # rest)"
  proof -
    from h have c: "cols = presentColumns t firstRow" by (simp add: present_defined)
    from h have "presentColumns t firstRow \<noteq> []"
      and "list_all (converts p (presentColumns t firstRow)) (firstRow # rest)"
      unfolding c by blast+
    from toQuery_insertManyVec0 [OF this] show ?thesis unfolding c .
  qed
  have g: "own row k = None \<and> inherited row k = None \<longrightarrow> getProperty row k = JUndefined"
    by (simp add: getProperty_def)
  have sv: "serializeValue p JUndefined c = Inr JNull" "serializeValue p JNull c = Inr JNull"
    "serializeValue p (JNum n) c = Inr (JNum n)" "serializeValue p (JStr s) c = Inr (JStr s)"
    "serializeValue p (JBool b) c = Inr (JBool b)" "serializeValue p (JBuf buf) c = Inr (JBuf buf)"
    by (simp_all add: serializeValue_def)
  have bv: "buildValue JNull = \<lparr>sqlText = ''?'', params = [JNull]\<rparr>"
    "buildValue (JNum n) = \<lparr>sqlText = ''?'', params = [JNum n]\<rparr>"
    "buildValue (JStr s) = \<lparr>sqlText = ''?'', params = [JStr s]\<rparr>"
    "buildValue (JBool b) = \<lparr>sqlText = ''?'', params = [JBool b]\<rparr>"
    "buildValue (JBuf buf) = \<lparr>sqlText = ''?'', params = [JBuf buf]\<rparr>"
    by simp_all
  from main g sv bv serializeValue_numbers [of c p ns] show ?thesis by blast
qed

theorem insertManyVec0_first_row_governs_witness:
  "\<exists>q. insertManyVec0 examplePlatform
          (vec0Table ''items_vec''
             [(''id'', primaryKey' (vecInteger ''id'')), (''title'', vecText ''title''),
              (''embedding'', vecFloat ''embedding'' (Fin 1))])
          [objectLiteral [''id'' \<mapsto> JNum (Fin 1), ''embedding'' \<mapsto> JArr [JNum (Fin 1)]],
           objectLiteral [''title'' \<mapsto> JStr ''x'', ''embedding'' \<mapsto> JArr [JNum (Fin 2)]]]
        = Inr q
     \<and> sqlText (toQuery q)
         = ''INSERT INTO '' @ escapeName ''items_vec'' @ '' ('' @ escapeName ''id'' @ '', ''
           @ escapeName ''embedding'' @ '') VALUES (?, ?), (?, ?)''
     \<and> params (toQuery q)
         = [JNum (Fin 1),
            JBuf \<lparr>arrayBuffer = [0, 0, 128, 63], byteOffset = 0, byteLength = 4\<rparr>,
            JNull,
            JBuf \<lparr>arrayBuffer = [0, 0, 0, 64], byteOffset = 0, byteLength = 4\<rparr>]"
proof -
  let ?id = "primaryKey' (vecInteger ''id'')"
  let ?em = "vecFloat ''embedding'' (Fin 1)"
  let ?t = "vec0Table ''items_vec''
             [(''id'', ?id), (''title'', vecText ''title''), (''embedding'', ?em)]"
  let ?r1 = "objectLiteral [''id'' \<mapsto> JNum (Fin 1), ''embedding'' \<mapsto> JArr [JNum (Fin 1)]]"
  let ?r2 = "objectLiteral [''title'' \<mapsto> JStr ''x'', ''embedding'' \<mapsto> JArr [JNum (Fin 2)]]"
  have nm: "name ?id = ''id''" "name ?em = ''embedding''" "isVectorColumn ?em"
    "\<not> isVectorColumn ?id"
    by (simp_all add: builder_defs isVectorColumn_def)
  have get: "getProperty ?r1 ''id'' = JNum (Fin 1)"
    "getProperty ?r1 ''embedding'' = JArr [JNum (Fin 1)]"
    "getProperty ?r2 ''id'' = JUndefined"
    "getProperty ?r2 ''embedding'' = JArr [JNum (Fin 2)]"
    by (simp_all add: getProperty_def objectLiteral_def objectPrototype_embedding)
  have pin: "serializeValue examplePlatform JUndefined c = Inr JNull"
    "serializeValue examplePlatform (JNum n) c = Inr (JNum n)"
    "isVectorColumn c \<Longrightarrow> serializeValue examplePlatform (JArr (map JNum ns)) c
       = Inr (JBuf (serializeVector examplePlatform ns))"
    "buildValue JNull = \<lparr>sqlText = ''?'', params = [JNull]\<rparr>"
    "buildValue (JNum n) = \<lparr>sqlText = ''?'', params = [JNum n]\<rparr>"
    "buildValue (JBuf buf) = \<lparr>sqlText = ''?'', params = [JBuf buf]\<rparr>"
    for c n ns buf
    using insertManyVec0_first_row_governs [where p = examplePlatform and c = c and n = n
        and ns = ns and buf = buf]
    by blast+
  have vec: "serializeValue examplePlatform (JArr [JNum (Fin 1)]) ?em
               = Inr (JBuf (serializeVector examplePlatform [Fin 1]))"
    "serializeValue examplePlatform (JArr [JNum (Fin 2)]) ?em
               = Inr (JBuf (serializeVector examplePlatform [Fin 2]))"
    using pin(3) [OF nm(3), of "[Fin 1]"] pin(3) [OF nm(3), of "[Fin 2]"] by simp_all
  have inh: "inheritsNone ?t ?r1"
    by (simp add: inheritsNone_def builder_defs objectLiteral_def objectPrototype_embedding)
  have cols: "[?id, ?em] = filter (\<lambda>col. definedIn ?r1 (name col)) (columns ?t)"
    by (simp add: builder_defs definedIn_def objectLiteral_def)
  have conv: "list_all (converts examplePlatform [?id, ?em]) [?r1, ?r2]"
    by (simp add: converts_def nm get pin(1,2) vec)
  from insertManyVec0_first_row_governs [where p = examplePlatform and t = ?t
      and firstRow = ?r1 and rest = "[?r2]" and cols = "[?id, ?em]"] inh cols conv
  obtain q where q: "insertManyVec0 examplePlatform ?t [?r1, ?r2] = Inr q"
    and qtext: "sqlText (toQuery q)
          = ''INSERT INTO '' @ escapeName (tableName ?t) @ '' (''
            @ joinStrings (map (\<lambda>c. escapeName (name c)) [?id, ?em]) '', ''
            @ '') VALUES ''
            @ joinStrings
                (map (\<lambda>row. ''(''
                   @ joinStrings
                       (map (\<lambda>c. sqlText (buildValue
                               (projr (serializeValue examplePlatform
                                  (getProperty row (name c)) c))))
                            [?id, ?em]) '', ''
                   @ '')'')
                 [?r1, ?r2]) '', ''"
    and qparams: "params (toQuery q)
          = concat (map (\<lambda>row.
              concat (map (\<lambda>c. params (buildValue
                              (projr (serializeValue examplePlatform
                                 (getProperty row (name c)) c))))
                          [?id, ?em]))
              [?r1, ?r2])"
    by blast
  have bytes: "serializeVector examplePlatform [Fin 1]
                 = \<lparr>arrayBuffer = [0, 0, 128, 63], byteOffset = 0, byteLength = 4\<rparr>"
    "serializeVector examplePlatform [Fin 2]
                 = \<lparr>arrayBuffer = [0, 0, 0, 64], byteOffset = 0, byteLength = 4\<rparr>"
    by (simp_all add: serializeVector_def examplePlatform_def le_bytes_def)
  have tn: "tableName ?t = ''items_vec''" by (simp add: builder_defs)
  have "sqlText (toQuery q)
         = ''INSERT INTO '' @ escapeName ''items_vec'' @ '' ('' @ escapeName ''id'' @ '', ''
           @ escapeName ''embedding'' @ '') VALUES (?, ?), (?, ?)''"
    unfolding qtext by (simp add: nm get pin(1,2,4,5,6) vec tn joinStrings_def)
  moreover have "params (toQuery q)
         = [JNum (Fin 1),
            JBuf \<lparr>arrayBuffer = [0, 0, 128, 63], byteOffset = 0, byteLength = 4\<rparr>,
            JNull,
            JBuf \<lparr>arrayBuffer = [0, 0, 0, 64], byteOffset = 0, byteLength = 4\<rparr>]"
    unfolding qparams by (simp add: nm get pin(1,2,4,5,6) vec bytes)
  ultimately show ?thesis using q by blast
qed

theorem insertManyVec0_first_row_governs_counterexample:
  "own (objectLiteral Map.empty) ''constructor'' = None
   \<and> map_sum id (\<lambda>q. params (toQuery q))
        (insertManyVec0 examplePlatform
           (vec0Table ''items_vec'' [(''constructor'', vecInteger ''constructor'')])
           [objectLiteral [''constructor'' \<mapsto> JNum (Fin 1)], objectLiteral Map.empty])
       = Inr [JNum (Fin 1), JObject]
   \<and> insertManyVec0 examplePlatform
        (vec0Table ''items_vec'' [(''embedding'', vecFloat ''embedding'' (Fin 1))])
        [objectLiteral [''embedding'' \<mapsto> JArr [JNum (Fin 1)]],
         objectLiteral [''embedding'' \<mapsto> JArr [JSymbol]]]
       = Inl ToNumberThrows"
proof -
  let ?t = "vec0Table ''items_vec'' [(''constructor'', vecInteger ''constructor'')]"
  let ?r1 = "objectLiteral [''constructor'' \<mapsto> JNum (Fin 1)]"
  let ?r2 = "objectLiteral Map.empty"
  have a: "own (objectLiteral Map.empty) ''constructor'' = None"
    by (simp add: objectLiteral_def)
  have b: "map_sum id (\<lambda>q. params (toQuery q)) (insertManyVec0 examplePlatform ?t [?r1, ?r2])
       = Inr [JNum (Fin 1), JObject]"
    by (simp add: insertManyVec0_def Let_def builder_defs getProperty_def objectLiteral_def
        objectPrototype_embedding serializeValue_def toQuery_sql3 toQuery_sql1
        buildChunk_nested toQuery_sql_join_comma toQuery_valueSql sql_identifier_def)
  have c: "insertManyVec0 examplePlatform
        (vec0Table ''items_vec'' [(''embedding'', vecFloat ''embedding'' (Fin 1))])
        [objectLiteral [''embedding'' \<mapsto> JArr [JNum (Fin 1)]],
         objectLiteral [''embedding'' \<mapsto> JArr [JSymbol]]]
       = Inl ToNumberThrows"
    by (simp add: insertManyVec0_def Let_def builder_defs getProperty_def objectLiteral_def
        objectPrototype_embedding serializeValue_def isVectorColumn_def asNumber_def)
  from a b c show ?thesis by blast
qed

section \<open>The schema builder: statements\<close>

text \<open>
  Claim C8. The table \<^verbatim>\<open>items_vec\<close> with an integer primary key \<^verbatim>\<open>id\<close> and a float vector
  \<^verbatim>\<open>embedding\<close> of dimension 128 renders the CREATE statement of the documentation,
  character for character, and \<^verbatim>\<open>dropSQL()\<close> of every table is \<^verbatim>\<open>DROP TABLE IF EXISTS\<close>
  followed by the table's name.
\<close>

theorem createSQL_items_vec_dropSQL:
  "createSQL p (vec0Table ''items_vec''
      [(''id'', primaryKey' (vecInteger ''id'')), (''embedding'', vecFloat ''embedding'' (Fin 128))])
     = ''CREATE VIRTUAL TABLE IF NOT EXISTS items_vec USING vec0(id integer primary key, embedding float[128])''
   \<and> dropSQL (vec0Table n entries) = ''DROP TABLE IF EXISTS '' @ n
   \<and> dropSQL t = ''DROP TABLE IF EXISTS '' @ tableName t"
  by (simp add: builder_defs render_defs dropSQL_def)

lemma digit_range: "k < 10 \<Longrightarrow> k \<in> {0, 1, 2, 3, 4, 5, 6, 7, 8, 9 :: nat}"
  by auto

lemma digitValue_digit: "n < 10 \<Longrightarrow> digitValue (digit n) = n"
  by (drule digit_range) (auto simp: digit_def digitValue_def)

lemma digit_in_digits: "n < 10 \<Longrightarrow> digit n \<in> set ''0123456789''"
  by (drule digit_range) (auto simp: digit_def)

lemma decimalValue_snoc: "decimalValue (s @ [c]) = 10 * decimalValue s + digitValue c"
  by (simp add: decimalValue_def)

lemma decimalValue_natToString: "decimalValue (natToString n) = n"
proof (induction n rule: natToString.induct)
  case (1 n)
  show ?case
  proof (cases "n < 10")
    case True
    then show ?thesis
      by (simp add: natToString.simps [of n] decimalValue_def digitValue_digit)
  next
    case False
    with 1 have "decimalValue (natToString (n div 10)) = n div 10" by simp
    with False show ?thesis
      by (simp add: natToString.simps [of n] decimalValue_snoc digitValue_digit)
  qed
qed

lemma set_natToString: "set (natToString n) \<subseteq> set ''0123456789''"
proof (induction n rule: natToString.induct)
  case (1 n)
  show ?case
  proof (cases "n < 10")
    case True
    with digit_in_digits [of n] show ?thesis by (simp add: natToString.simps [of n])
  next
    case False
    with 1 have "set (natToString (n div 10)) \<subseteq> set ''0123456789''" by simp
    moreover have "digit (n mod 10) \<in> set ''0123456789''" by (rule digit_in_digits) simp
    ultimately show ?thesis using False by (simp add: natToString.simps [of n])
  qed
qed

lemma natToString_nonempty: "natToString n \<noteq> []"
  by (subst natToString.simps) simp

lemma natToString_zero: "natToString n = ''0'' \<Longrightarrow> n = 0"
  using decimalValue_natToString [of n] by (simp add: decimalValue_def digitValue_def)


lemma set_intToString: "set (intToString d) \<subseteq> insert CHR ''-'' (set ''0123456789'')"
proof (cases "d < 0")
  case True
  then have "set (intToString d) = insert CHR ''-'' (set (natToString (nat (- d))))"
    by (simp add: intToString_def)
  with set_natToString [of "nat (- d)"] show ?thesis by blast
next
  case False
  then have "set (intToString d) = set (natToString (nat d))"
    by (simp add: intToString_def)
  with set_natToString [of "nat d"] show ?thesis by blast
qed

lemma intToString_nonempty: "intToString d \<noteq> []"
  by (simp add: intToString_def natToString_nonempty)

lemma intToString_zero: "intToString d = ''0'' \<Longrightarrow> d = 0"
proof (cases "d < 0")
  case True
  assume "intToString d = ''0''"
  with True show ?thesis by (simp add: intToString_def)
next
  case False
  assume "intToString d = ''0''"
  with False have "natToString (nat d) = ''0''" by (simp add: intToString_def)
  from natToString_zero [OF this] False show ?thesis by simp
qed

lemma noZeroBracket_append: "noZeroBracket a \<Longrightarrow> noZeroBracket b \<Longrightarrow> noZeroBracket (a @ b)"
proof (induction a)
  case Nil
  then show ?case by simp
next
  case (Cons c cs)
  then have rest: "noZeroBracket (cs @ b)" by simp
  show ?case
  proof (cases "c = CHR ''[''")
    case False
    with rest show ?thesis by simp
  next
    case True
    with Cons.prems(1) obtain c1 c2 r where cs: "cs = c1 # c2 # r"
      and ne: "\<not> (c1 = CHR ''0'' \<and> c2 = CHR '']'')"
      by (cases cs; cases "tl cs") auto
    from True have "noZeroBracket ((c # cs) @ b) \<longleftrightarrow>
        (case cs @ b of c1 # c2 # _ \<Rightarrow> \<not> (c1 = CHR ''0'' \<and> c2 = CHR '']'') | _ \<Rightarrow> False)
        \<and> noZeroBracket (cs @ b)"
      by simp
    moreover have "case cs @ b of c1 # c2 # _ \<Rightarrow> \<not> (c1 = CHR ''0'' \<and> c2 = CHR '']'')
        | _ \<Rightarrow> False"
      using ne by (simp add: cs)
    ultimately show ?thesis using rest by blast
  qed
qed

lemma noZeroBracket_suffix: "noZeroBracket (a @ b) \<Longrightarrow> noZeroBracket b"
  by (induction a) auto

lemma noZeroBracket_plain: "CHR ''['' \<notin> set s \<Longrightarrow> noZeroBracket s"
  by (induction s) auto

lemma noZeroBracket_sublist: "noZeroBracket s \<Longrightarrow> \<not> sublist ''float[0]'' s"
proof
  assume ok: "noZeroBracket s" and "sublist ''float[0]'' s"
  then obtain ps ss where "s = ps @ ''float[0]'' @ ss" unfolding sublist_def by blast
  with ok have "noZeroBracket (''float[0]'' @ ss)" using noZeroBracket_suffix by blast
  then show False by simp
qed

lemma noZeroBracket_number:
  assumes "s \<noteq> []" and "s \<noteq> ''0''" and "CHR '']'' \<notin> set s" and "CHR ''['' \<notin> set s"
    and "noZeroBracket suf"
  shows "noZeroBracket (CHR ''['' # s @ CHR '']'' # suf)"
proof -
  have "noZeroBracket (CHR '']'' # suf)" using assms(5) by simp
  moreover have "noZeroBracket s" using assms(4) by (rule noZeroBracket_plain)
  ultimately have tail: "noZeroBracket (s @ CHR '']'' # suf)"
    by (intro noZeroBracket_append)
  have first: "case s @ CHR '']'' # suf of c1 # c2 # _ \<Rightarrow> \<not> (c1 = CHR ''0'' \<and> c2 = CHR '']'')
      | _ \<Rightarrow> False"
  proof (cases s)
    case Nil
    with assms(1) show ?thesis by simp
  next
    case (Cons c cs)
    show ?thesis
    proof (cases cs)
      case Nil
      with Cons assms(2) have "c \<noteq> CHR ''0''" by simp
      with Cons Nil show ?thesis by simp
    next
      case (Cons c' cs')
      with \<open>s = c # cs\<close> assms(3) have "c' \<noteq> CHR '']''" by auto
      with Cons \<open>s = c # cs\<close> show ?thesis by simp
    qed
  qed
  have "noZeroBracket (CHR ''['' # (s @ CHR '']'' # suf)) \<longleftrightarrow>
      (case s @ CHR '']'' # suf of c1 # c2 # _ \<Rightarrow> \<not> (c1 = CHR ''0'' \<and> c2 = CHR '']'')
        | _ \<Rightarrow> False)
      \<and> noZeroBracket (s @ CHR '']'' # suf)"
    by (subst noZeroBracket.simps(2)) simp
  with first tail show ?thesis by simp
qed

lemma set_intersperse_subset: "set (intersperse sep xs) \<subseteq> insert sep (set xs)"
  by (induction sep xs rule: intersperse.induct) auto

lemma set_joinStrings_subset:
  "set (joinStrings xs sep) \<subseteq> set sep \<union> (\<Union>x \<in> set xs. set x)"
  using set_intersperse_subset [of sep xs] by (auto simp: joinStrings_def)

lemma sublist_joinStrings: "x \<in> set xs \<Longrightarrow> sublist x (joinStrings xs sep)"
proof (induction sep xs rule: intersperse.induct)
  case (1 sep)
  then show ?case by simp
next
  case (2 sep y)
  then show ?case by (simp add: joinStrings_def)
next
  case (3 sep y z zs)
  show ?case
  proof (cases "x = y")
    case True
    have "joinStrings (y # z # zs) sep = [] @ y @ (sep @ joinStrings (z # zs) sep)"
      by (simp add: joinStrings_def)
    then show ?thesis unfolding True sublist_def by blast
  next
    case False
    with 3 have "sublist x (joinStrings (z # zs) sep)" by simp
    then obtain ps ss where "joinStrings (z # zs) sep = ps @ x @ ss"
      unfolding sublist_def by blast
    then have "joinStrings (y # z # zs) sep = (y @ sep @ ps) @ x @ ss"
      by (simp add: joinStrings_def)
    then show ?thesis unfolding sublist_def by blast
  qed
qed

lemma sublist_createSQL:
  assumes "c \<in> set (columns t)" and "sublist s (columnDef p c)"
  shows "sublist s (createSQL p t)"
proof -
  from assms(1) have "sublist (columnDef p c) (joinStrings (map (columnDef p) (columns t)) '', '')"
    by (intro sublist_joinStrings) simp
  then obtain ps ss where j: "joinStrings (map (columnDef p) (columns t)) '', '' = ps @ columnDef p c @ ss"
    unfolding sublist_def by blast
  from assms(2) obtain ps' ss' where d: "columnDef p c = ps' @ s @ ss'"
    unfolding sublist_def by blast
  have "createSQL p t
      = (''CREATE VIRTUAL TABLE IF NOT EXISTS '' @ tableName t @ '' USING vec0('' @ ps @ ps')
        @ s @ (ss' @ ss @ '')'')"
    by (simp add: createSQL_def j d)
  then show ?thesis unfolding sublist_def by blast
qed


lemma numberToString_int:
  "\<bar>d\<bar> \<le> 9007199254740992 \<Longrightarrow> numberToString p (Fin (of_int d)) = intToString d"
proof -
  assume "\<bar>d\<bar> \<le> 9007199254740992"
  then have "\<bar>of_int d :: rat\<bar> \<le> of_int 9007199254740992"
    unfolding of_int_abs [symmetric] by (simp only: of_int_le_iff)
  then show ?thesis by (simp add: numberToString_def isSafeInteger_def)
qed

lemma truthy_int: "truthy (Some (Fin (of_int d))) \<longleftrightarrow> d \<noteq> 0"
  by (simp add: truthy_def)

lemma columnDef_zero:
  "isVectorColumn col \<Longrightarrow> dimensions col = Some (Fin 0) \<Longrightarrow> columnDef p col = name col"
  by (auto simp: columnDef_def isVectorColumn_def truthy_def)

lemma columnDef_int:
  assumes "dimensions c = Some (Fin (of_int d))" and "d \<noteq> 0" and "\<bar>d\<bar> \<le> 9007199254740992"
  shows "ctype c = TFloat \<Longrightarrow> columnDef p c
           = name c @ '' float['' @ intToString d @ '']'' @ metricSuffix (distanceMetric c)"
    and "ctype c = TInt8 \<Longrightarrow> columnDef p c
           = name c @ '' int8['' @ intToString d @ '']'' @ metricSuffix (distanceMetric c)"
    and "ctype c = TBit \<Longrightarrow> columnDef p c = name c @ '' bit['' @ intToString d @ '']''"
  using assms
  by (simp_all add: columnDef_def truthy_int dimensionsToString_def numberToString_int)

lemma metricSuffix_plain: "CHR ''['' \<notin> set (metricSuffix m)"
  by (cases m) (auto simp: metricSuffix_def metricToString_def split: metric.splits)

lemma noZeroBracket_dims:
  assumes "d \<noteq> 0" and "CHR ''['' \<notin> set suf"
  shows "noZeroBracket (CHR ''['' # intToString d @ CHR '']'' # suf)"
proof (rule noZeroBracket_number)
  show "intToString d \<noteq> []" by (rule intToString_nonempty)
  show "intToString d \<noteq> ''0''" using assms(1) intToString_zero by blast
  show "CHR '']'' \<notin> set (intToString d)" using set_intToString [of d] by auto
  show "CHR ''['' \<notin> set (intToString d)" using set_intToString [of d] by auto
  show "noZeroBracket suf" using assms(2) by (rule noZeroBracket_plain)
qed

lemma noZeroBracket_columnDef:
  assumes nm: "CHR ''['' \<notin> set (name c)"
    and dm: "isVectorColumn c \<longrightarrow>
      (\<exists>d. dimensions c = Some (Fin (of_int d)) \<and> \<bar>d\<bar> \<le> 9007199254740992)"
  shows "noZeroBracket (columnDef p c)"
proof (cases "isVectorColumn c")
  case False
  with nm have "CHR ''['' \<notin> set (columnDef p c)"
    by (cases "ctype c") (auto simp: columnDef_def isVectorColumn_def)
  then show ?thesis by (rule noZeroBracket_plain)
next
  case True
  with dm obtain d where d: "dimensions c = Some (Fin (of_int d))" "\<bar>d\<bar> \<le> 9007199254740992"
    by blast
  show ?thesis
  proof (cases "d = 0")
    case True
    with d \<open>isVectorColumn c\<close> have "columnDef p c = name c" by (simp add: columnDef_zero)
    with nm show ?thesis by (simp add: noZeroBracket_plain)
  next
    case False
    have pre: "\<And>k. CHR ''['' \<notin> set k \<Longrightarrow> noZeroBracket (name c @ k)"
      using nm by (intro noZeroBracket_plain) simp
    have "noZeroBracket
            ((name c @ k) @ CHR ''['' # intToString d @ CHR '']'' # metricSuffix (distanceMetric c))"
      if "CHR ''['' \<notin> set k" for k
      using that by (intro noZeroBracket_append pre noZeroBracket_dims False metricSuffix_plain)
    from this [of "'' float''"] this [of "'' int8''"]
    have fl: "noZeroBracket (name c @ '' float['' @ intToString d @ '']''
                @ metricSuffix (distanceMetric c))"
      and i8: "noZeroBracket (name c @ '' int8['' @ intToString d @ '']''
                @ metricSuffix (distanceMetric c))"
      by simp_all
    have "noZeroBracket ((name c @ '' bit'') @ CHR ''['' # intToString d @ CHR '']'' # [])"
      by (intro noZeroBracket_append pre noZeroBracket_dims False) simp_all
    then have bt: "noZeroBracket (name c @ '' bit['' @ intToString d @ '']'')" by simp
    from \<open>isVectorColumn c\<close> consider "ctype c = TFloat" | "ctype c = TInt8" | "ctype c = TBit"
      unfolding isVectorColumn_def by blast
    then show ?thesis
      using fl i8 bt columnDef_int [OF d(1) False d(2), of p] by cases simp_all
  qed
qed

lemma noZeroBracket_joinStrings:
  "(\<And>x. x \<in> set xs \<Longrightarrow> noZeroBracket x) \<Longrightarrow> noZeroBracket sep
     \<Longrightarrow> noZeroBracket (joinStrings xs sep)"
proof (induction sep xs rule: intersperse.induct)
  case (1 sep)
  then show ?case by (simp add: joinStrings_def)
next
  case (2 sep x)
  then show ?case by (simp add: joinStrings_def)
next
  case (3 sep x y ys)
  then have "noZeroBracket (joinStrings (y # ys) sep)" by simp
  with 3 have "noZeroBracket (x @ sep @ joinStrings (y # ys) sep)"
    by (intro noZeroBracket_append) simp_all
  then show ?case by (simp add: joinStrings_def)
qed

lemma noZeroBracket_createSQL:
  assumes "CHR ''['' \<notin> set (tableName t)"
    and "\<forall>c \<in> set (columns t). CHR ''['' \<notin> set (name c)
           \<and> (isVectorColumn c \<longrightarrow>
                 (\<exists>d. dimensions c = Some (Fin (of_int d)) \<and> \<bar>d\<bar> \<le> 9007199254740992))"
  shows "noZeroBracket (createSQL p t)"
proof -
  have B: "noZeroBracket (joinStrings (map (columnDef p) (columns t)) '', '')"
    using assms(2) by (intro noZeroBracket_joinStrings) (auto intro: noZeroBracket_columnDef)
  have A: "noZeroBracket (''CREATE VIRTUAL TABLE IF NOT EXISTS '' @ tableName t
      @ '' USING vec0('')"
    using assms(1) by (intro noZeroBracket_plain) simp
  have C: "noZeroBracket '')''" by simp
  have "noZeroBracket ((''CREATE VIRTUAL TABLE IF NOT EXISTS '' @ tableName t
      @ '' USING vec0('') @ joinStrings (map (columnDef p) (columns t)) '', '' @ '')'')"
    by (rule noZeroBracket_append [OF A noZeroBracket_append [OF B C]])
  then show ?thesis by (simp add: createSQL_def)
qed

text \<open>
  Claim C4. A vector column (float, int8 or bit) of dimension 0 renders as its bare name,
  with no bracketed type, and no table renders \<^verbatim>\<open>float[0]\<close> whose names have no bracket
  and whose vector columns have integer dimensions, whatever these are. Every negative
  dimension is written out as it is, a minus sign and its decimal digits: the column is
  \<^verbatim>\<open>name float[-d]\<close> (\<^verbatim>\<open>int8\<close>, \<^verbatim>\<open>bit\<close>), and \<^verbatim>\<open>float[-d]\<close> is in the statement of every
  table with such a float column; for -4 that is \<^verbatim>\<open>float[-4]\<close>. The builder and
  \<^verbatim>\<open>createSQL()\<close> are total: there is no error for a dimension.
\<close>

theorem zero_and_negative_dimensions:
  "(isVectorColumn col \<and> dimensions col = Some (Fin 0) \<longrightarrow> columnDef p col = name col)
   \<and> (CHR ''['' \<notin> set (tableName t)
        \<and> (\<forall>c \<in> set (columns t). CHR ''['' \<notin> set (name c)
              \<and> (isVectorColumn c \<longrightarrow>
                    (\<exists>k. dimensions c = Some (Fin (of_int k)) \<and> \<bar>k\<bar> \<le> 9007199254740992)))
      \<longrightarrow> \<not> sublist ''float[0]'' (createSQL p t))
   \<and> createSQL p (vec0Table ''zero_test'' [(''embedding'', vecFloat ''embedding'' (Fin 0))])
       = ''CREATE VIRTUAL TABLE IF NOT EXISTS zero_test USING vec0(embedding)''
   \<and> (d < 0 \<and> - 9007199254740992 \<le> d \<longrightarrow>
        columnDef p (vecFloat n (Fin (of_int d)))
          = n @ '' float[-'' @ natToString (nat (- d)) @ '']''
        \<and> columnDef p (vecInt8 n (Fin (of_int d)))
          = n @ '' int8[-'' @ natToString (nat (- d)) @ '']''
        \<and> columnDef p (vecBit n (Fin (of_int d)))
          = n @ '' bit[-'' @ natToString (nat (- d)) @ '']''
        \<and> decimalValue (natToString (nat (- d))) = nat (- d)
        \<and> (c \<in> set (columns t) \<and> ctype c = TFloat \<and> dimensions c = Some (Fin (of_int d))
            \<longrightarrow> sublist (''float[-'' @ natToString (nat (- d)) @ '']'') (createSQL p t)))
   \<and> createSQL p (vec0Table ''neg_test'' [(''embedding'', vecFloat ''embedding'' (Fin (- 4)))])
       = ''CREATE VIRTUAL TABLE IF NOT EXISTS neg_test USING vec0(embedding float[-4])''"
proof -
  have a: "isVectorColumn col \<and> dimensions col = Some (Fin 0) \<longrightarrow> columnDef p col = name col"
    by (simp add: columnDef_zero)
  have b: "CHR ''['' \<notin> set (tableName t)
        \<and> (\<forall>c \<in> set (columns t). CHR ''['' \<notin> set (name c)
              \<and> (isVectorColumn c \<longrightarrow>
                    (\<exists>k. dimensions c = Some (Fin (of_int k)) \<and> \<bar>k\<bar> \<le> 9007199254740992)))
      \<longrightarrow> \<not> sublist ''float[0]'' (createSQL p t)"
    by (intro impI noZeroBracket_sublist noZeroBracket_createSQL) blast+
  have c0: "createSQL p (vec0Table ''zero_test'' [(''embedding'', vecFloat ''embedding'' (Fin 0))])
       = ''CREATE VIRTUAL TABLE IF NOT EXISTS zero_test USING vec0(embedding)''"
    by (simp add: builder_defs render_defs)
  have e: "columnDef p (vecFloat n (Fin (of_int d)))
          = n @ '' float[-'' @ natToString (nat (- d)) @ '']''
        \<and> columnDef p (vecInt8 n (Fin (of_int d)))
          = n @ '' int8[-'' @ natToString (nat (- d)) @ '']''
        \<and> columnDef p (vecBit n (Fin (of_int d)))
          = n @ '' bit[-'' @ natToString (nat (- d)) @ '']''
        \<and> decimalValue (natToString (nat (- d))) = nat (- d)
        \<and> (c \<in> set (columns t) \<and> ctype c = TFloat \<and> dimensions c = Some (Fin (of_int d))
            \<longrightarrow> sublist (''float[-'' @ natToString (nat (- d)) @ '']'') (createSQL p t))"
    if neg: "d < 0 \<and> - 9007199254740992 \<le> d"
  proof -
    from neg have nz: "d \<noteq> 0" and safe: "\<bar>d\<bar> \<le> 9007199254740992" by auto
    from neg have its: "intToString d = ''-'' @ natToString (nat (- d))"
      by (simp add: intToString_def)
    have 1: "columnDef p (vecFloat n (Fin (of_int d)))
          = n @ '' float[-'' @ natToString (nat (- d)) @ '']''"
      using columnDef_int(1) [where c = "vecFloat n (Fin (of_int d))" and d = d and p = p] nz safe
      by (simp add: builder_defs its metricSuffix_def)
    have 2: "columnDef p (vecInt8 n (Fin (of_int d)))
          = n @ '' int8[-'' @ natToString (nat (- d)) @ '']''"
      using columnDef_int(2) [where c = "vecInt8 n (Fin (of_int d))" and d = d and p = p] nz safe
      by (simp add: builder_defs its metricSuffix_def)
    have 3: "columnDef p (vecBit n (Fin (of_int d)))
          = n @ '' bit[-'' @ natToString (nat (- d)) @ '']''"
      using columnDef_int(3) [where c = "vecBit n (Fin (of_int d))" and d = d and p = p] nz safe
      by (simp add: builder_defs its)
    have 4: "decimalValue (natToString (nat (- d))) = nat (- d)"
      by (rule decimalValue_natToString)
    have 5: "sublist (''float[-'' @ natToString (nat (- d)) @ '']'') (createSQL p t)"
      if h: "c \<in> set (columns t) \<and> ctype c = TFloat \<and> dimensions c = Some (Fin (of_int d))"
    proof -
      from h columnDef_int(1) [where c = c and d = d and p = p] nz safe
      have "columnDef p c = (name c @ '' '') @ (''float[-'' @ natToString (nat (- d)) @ '']'')
              @ metricSuffix (distanceMetric c)"
        by (simp add: its)
      then have "sublist (''float[-'' @ natToString (nat (- d)) @ '']'') (columnDef p c)"
        unfolding sublist_def by blast
      with h show ?thesis by (intro sublist_createSQL) auto
    qed
    from 1 2 3 4 5 show ?thesis by blast
  qed
  have f: "createSQL p (vec0Table ''neg_test'' [(''embedding'', vecFloat ''embedding'' (Fin (- 4)))])
       = ''CREATE VIRTUAL TABLE IF NOT EXISTS neg_test USING vec0(embedding float[-4])''"
    by (simp add: builder_defs render_defs)
  from a b c0 e f show ?thesis by blast
qed

theorem zero_and_negative_dimensions_witness:
  "isVectorColumn (vecFloat ''embedding'' (Fin 0))
   \<and> dimensions (vecFloat ''embedding'' (Fin 0)) = Some (Fin 0)
   \<and> columnDef examplePlatform (vecFloat ''embedding'' (Fin 0)) = ''embedding''
   \<and> isVectorColumn (vecInt8 ''embedding'' (Fin 0))
   \<and> columnDef examplePlatform (vecInt8 ''embedding'' (Fin 0)) = ''embedding''
   \<and> isVectorColumn (vecBit ''embedding'' (Fin 0))
   \<and> columnDef examplePlatform (vecBit ''embedding'' (Fin 0)) = ''embedding''
   \<and> \<not> sublist ''float[0]''
         (createSQL examplePlatform
            (vec0Table ''mixed'' [(''a'', vecFloat ''a'' (Fin 0)), (''b'', vecFloat ''b'' (Fin 128))]))
   \<and> columnDef examplePlatform (vecFloat ''embedding'' (Fin (- 12))) = ''embedding float[-12]''
   \<and> columnDef examplePlatform (vecInt8 ''embedding'' (Fin (- 12))) = ''embedding int8[-12]''
   \<and> columnDef examplePlatform (vecBit ''embedding'' (Fin (- 12))) = ''embedding bit[-12]''
   \<and> sublist ''float[-4]''
         (createSQL examplePlatform
            (vec0Table ''neg_test'' [(''embedding'', vecFloat ''embedding'' (Fin (- 4)))]))"
proof -
  let ?m = "vec0Table ''mixed'' [(''a'', vecFloat ''a'' (Fin 0)), (''b'', vecFloat ''b'' (Fin 128))]"
  let ?n = "vec0Table ''neg_test'' [(''embedding'', vecFloat ''embedding'' (Fin (- 4)))]"
  have v: "isVectorColumn (vecFloat ''embedding'' (Fin 0))
             \<and> dimensions (vecFloat ''embedding'' (Fin 0)) = Some (Fin 0)"
    "isVectorColumn (vecInt8 ''embedding'' (Fin 0))
             \<and> dimensions (vecInt8 ''embedding'' (Fin 0)) = Some (Fin 0)"
    "isVectorColumn (vecBit ''embedding'' (Fin 0))
             \<and> dimensions (vecBit ''embedding'' (Fin 0)) = Some (Fin 0)"
    by (simp_all add: builder_defs isVectorColumn_def)
  have nm: "name (vecFloat ''embedding'' (Fin 0)) = ''embedding''"
    "name (vecInt8 ''embedding'' (Fin 0)) = ''embedding''"
    "name (vecBit ''embedding'' (Fin 0)) = ''embedding''"
    by (simp_all add: builder_defs)
  have 1: "columnDef examplePlatform (vecFloat ''embedding'' (Fin 0)) = ''embedding''"
    using v(1) nm(1)
      zero_and_negative_dimensions [where p = examplePlatform
        and col = "vecFloat ''embedding'' (Fin 0)"]
    by simp
  have 2: "columnDef examplePlatform (vecInt8 ''embedding'' (Fin 0)) = ''embedding''"
    using v(2) nm(2)
      zero_and_negative_dimensions [where p = examplePlatform
        and col = "vecInt8 ''embedding'' (Fin 0)"]
    by simp
  have 3: "columnDef examplePlatform (vecBit ''embedding'' (Fin 0)) = ''embedding''"
    using v(3) nm(3)
      zero_and_negative_dimensions [where p = examplePlatform
        and col = "vecBit ''embedding'' (Fin 0)"]
    by simp
  have k0: "\<exists>k. Some (Fin 0) = Some (Fin (of_int k)) \<and> \<bar>k\<bar> \<le> 9007199254740992"
    by (rule exI [of _ 0]) simp
  have k128: "\<exists>k. Some (Fin 128) = Some (Fin (of_int k)) \<and> \<bar>k\<bar> \<le> 9007199254740992"
    by (rule exI [of _ 128]) simp
  have hm: "CHR ''['' \<notin> set (tableName ?m)
        \<and> (\<forall>c \<in> set (columns ?m). CHR ''['' \<notin> set (name c)
              \<and> (isVectorColumn c \<longrightarrow>
                    (\<exists>k. dimensions c = Some (Fin (of_int k)) \<and> \<bar>k\<bar> \<le> 9007199254740992)))"
    using k0 k128 by (simp add: builder_defs)
  have 4: "\<not> sublist ''float[0]'' (createSQL examplePlatform ?m)"
    using hm zero_and_negative_dimensions [where p = examplePlatform and t = ?m] by blast
  have d12: "(- 12 :: int) < 0 \<and> - 9007199254740992 \<le> (- 12 :: int)" by simp
  have s12: "natToString 12 = ''12''"
    by (simp add: natToString.simps digit_def)
  have e12: "columnDef examplePlatform (vecFloat ''embedding'' (Fin (of_int (- 12))))
          = ''embedding'' @ '' float[-'' @ natToString (nat (- (- 12))) @ '']''
        \<and> columnDef examplePlatform (vecInt8 ''embedding'' (Fin (of_int (- 12))))
          = ''embedding'' @ '' int8[-'' @ natToString (nat (- (- 12))) @ '']''
        \<and> columnDef examplePlatform (vecBit ''embedding'' (Fin (of_int (- 12))))
          = ''embedding'' @ '' bit[-'' @ natToString (nat (- (- 12))) @ '']''"
    using d12 zero_and_negative_dimensions [where p = examplePlatform and d = "- 12"
      and n = "''embedding''"]
    by blast
  from e12
  have 5: "columnDef examplePlatform (vecFloat ''embedding'' (Fin (- 12))) = ''embedding float[-12]''"
    and 6: "columnDef examplePlatform (vecInt8 ''embedding'' (Fin (- 12))) = ''embedding int8[-12]''"
    and 7: "columnDef examplePlatform (vecBit ''embedding'' (Fin (- 12))) = ''embedding bit[-12]''"
    by (simp_all add: s12)
  have d4: "(- 4 :: int) < 0 \<and> - 9007199254740992 \<le> (- 4 :: int)" by simp
  have s4: "natToString 4 = ''4''"
    by (simp add: natToString.simps digit_def)
  have hn: "vecFloat ''embedding'' (Fin (- 4)) \<in> set (columns ?n)
      \<and> ctype (vecFloat ''embedding'' (Fin (- 4))) = TFloat
      \<and> dimensions (vecFloat ''embedding'' (Fin (- 4))) = Some (Fin (of_int (- 4)))"
    by (simp add: builder_defs)
  have "sublist (''float[-'' @ natToString (nat (- (- 4))) @ '']'') (createSQL examplePlatform ?n)"
    using d4 hn zero_and_negative_dimensions [where p = examplePlatform and d = "- 4"
        and t = ?n and c = "vecFloat ''embedding'' (Fin (- 4))"]
    by blast
  then have 8: "sublist ''float[-4]'' (createSQL examplePlatform ?n)"
    by (simp add: s4)
  from v 1 2 3 4 5 6 7 8 show ?thesis by simp
qed

section \<open>The vector utilities: statements\<close>

text \<open>
  Claim C9. \<^verbatim>\<open>l2Distance\<close>, \<^verbatim>\<open>cosineSimilarity\<close>, \<^verbatim>\<open>cosineDistance\<close> and \<^verbatim>\<open>dotProduct\<close> throw
  the error "Vectors must have the same dimensions" whenever the two vectors differ in
  length, and \<^verbatim>\<open>typedVector\<close> throws "Vector dimension mismatch" whenever the length of the
  values differs from the dimensions.
\<close>

theorem dimension_mismatch_throws:
  "(length a \<noteq> length b \<longrightarrow>
      l2Distance p a b = Inl VectorsSameDimensions
    \<and> cosineSimilarity p a b = Inl VectorsSameDimensions
    \<and> cosineDistance p a b = Inl VectorsSameDimensions
    \<and> dotProduct p a b = Inl VectorsSameDimensions)
   \<and> (lengthOf vals \<noteq> dims \<longrightarrow>
        typedVector dims vals = Inl (VectorDimensionMismatch dims (length vals)))"
  by (simp add: l2Distance_def cosineSimilarity_def cosineDistance_def dotProduct_def
      typedVector_def)

theorem dimension_mismatch_throws_witness:
  "length [Fin 1, Fin 2] \<noteq> length [Fin 1, Fin 2, Fin 3]
   \<and> l2Distance examplePlatform [Fin 1, Fin 2] [Fin 1, Fin 2, Fin 3] = Inl VectorsSameDimensions
   \<and> cosineSimilarity examplePlatform [Fin 1, Fin 2] [Fin 1, Fin 2, Fin 3] = Inl VectorsSameDimensions
   \<and> cosineDistance examplePlatform [Fin 1, Fin 2] [Fin 1, Fin 2, Fin 3] = Inl VectorsSameDimensions
   \<and> dotProduct examplePlatform [Fin 1, Fin 2] [Fin 1, Fin 2, Fin 3] = Inl VectorsSameDimensions
   \<and> lengthOf [Fin 1, Fin 2, Fin 3] \<noteq> Fin 4
   \<and> typedVector (Fin 4) [Fin 1, Fin 2, Fin 3] = Inl (VectorDimensionMismatch (Fin 4) 3)"
  using dimension_mismatch_throws [where a = "[Fin 1, Fin 2]" and b = "[Fin 1, Fin 2, Fin 3]"
      and vals = "[Fin 1, Fin 2, Fin 3]" and dims = "Fin 4" and p = examplePlatform]
  by (simp add: lengthOf_def)

text \<open>
  Claim C10. \<^verbatim>\<open>validateVector\<close> throws for every value that is not an array and for every
  array with an element that is not a number or is NaN; for an array of valid numbers it
  throws the dimension mismatch when the dimensions are given and differ from the length
  (an array of another length than the given dimensions throws in every case); it returns
  true in all other cases. The valid numbers are all numbers but NaN, the two infinities
  among them.
\<close>

theorem validateVector_cases:
  "((\<forall>xs. v \<noteq> JArr xs) \<longrightarrow> validateVector v dims = Inl VectorMustBeArray)
   \<and> ((\<exists>x \<in> set xs. \<not> validNumber x) \<longrightarrow> validateVector (JArr xs) dims = Inl VectorInvalidNumbers)
   \<and> ((\<forall>x \<in> set xs. validNumber x) \<and> lengthOf xs \<noteq> d \<longrightarrow>
        validateVector (JArr xs) (Some d) = Inl (VectorDimensionMismatch d (length xs)))
   \<and> (lengthOf xs \<noteq> d \<longrightarrow> isl (validateVector (JArr xs) (Some d)))
   \<and> ((\<forall>x \<in> set xs. validNumber x) \<and> (dims = None \<or> dims = Some (lengthOf xs)) \<longrightarrow>
        validateVector (JArr xs) dims = Inr True)
   \<and> (validNumber x \<longleftrightarrow> (\<exists>n. x = JNum n \<and> n \<noteq> NaN))
   \<and> validNumber (JNum PosInfinity) \<and> validNumber (JNum NegInfinity)"
proof -
  have 1: "(\<forall>xs. v \<noteq> JArr xs) \<longrightarrow> validateVector v dims = Inl VectorMustBeArray"
    by (cases v) (simp_all add: validateVector_def)
  have 2: "(\<exists>x \<in> set xs. \<not> validNumber x) \<longrightarrow>
      validateVector (JArr xs) dims = Inl VectorInvalidNumbers"
    by (auto simp: validateVector_def list_all_iff)
  have 3: "(\<forall>x \<in> set xs. validNumber x) \<and> lengthOf xs \<noteq> d \<longrightarrow>
      validateVector (JArr xs) (Some d) = Inl (VectorDimensionMismatch d (length xs))"
    by (auto simp: validateVector_def list_all_iff)
  have 4: "lengthOf xs \<noteq> d \<longrightarrow> isl (validateVector (JArr xs) (Some d))"
    by (auto simp: validateVector_def)
  have 5: "(\<forall>x \<in> set xs. validNumber x) \<and> (dims = None \<or> dims = Some (lengthOf xs)) \<longrightarrow>
      validateVector (JArr xs) dims = Inr True"
    by (auto simp: validateVector_def list_all_iff)
  have 6: "validNumber x \<longleftrightarrow> (\<exists>n. x = JNum n \<and> n \<noteq> NaN)"
    by (cases x) (simp_all add: validNumber_def isNaN_def)
  have 7: "validNumber (JNum PosInfinity) \<and> validNumber (JNum NegInfinity)"
    by (simp add: validNumber_def isNaN_def)
  from 1 2 3 4 5 6 7 show ?thesis by blast
qed


theorem validateVector_cases_witness:
  "(\<forall>xs. JStr ''not an array'' \<noteq> JArr xs)
   \<and> validateVector (JStr ''not an array'') None = Inl VectorMustBeArray
   \<and> (\<exists>x \<in> set [JNum (Fin 1), JNum (Fin 2), JNum NaN]. \<not> validNumber x)
   \<and> validateVector (JArr [JNum (Fin 1), JNum (Fin 2), JNum NaN]) None = Inl VectorInvalidNumbers
   \<and> validNumber (JNum (Fin 1)) \<and> validNumber (JNum PosInfinity)
   \<and> lengthOf [JNum (Fin 1), JNum PosInfinity] \<noteq> Fin 3
   \<and> validateVector (JArr [JNum (Fin 1), JNum PosInfinity]) (Some (Fin 3))
       = Inl (VectorDimensionMismatch (Fin 3) 2)
   \<and> validateVector (JArr [JNum (Fin 1), JNum PosInfinity]) (Some (Fin 2)) = Inr True
   \<and> validateVector (JArr [JNum (Fin 1), JNum PosInfinity]) None = Inr True"
proof -
  have a: "\<forall>xs. JStr ''not an array'' \<noteq> JArr xs" by simp
  have b: "\<exists>x \<in> set [JNum (Fin 1), JNum (Fin 2), JNum NaN]. \<not> validNumber x"
    by (simp add: validNumber_def isNaN_def)
  have c: "\<forall>x \<in> set [JNum (Fin 1), JNum PosInfinity]. validNumber x"
    by (simp add: validNumber_def isNaN_def)
  have d: "lengthOf [JNum (Fin 1), JNum PosInfinity] \<noteq> Fin 3"
    by (simp add: lengthOf_def)
  have e: "Some (Fin 2) = Some (lengthOf [JNum (Fin 1), JNum PosInfinity])"
    by (simp add: lengthOf_def)
  have 1: "validateVector (JStr ''not an array'') None = Inl VectorMustBeArray"
    using a validateVector_cases [where v = "JStr ''not an array''" and dims = None] by simp
  have 2: "validateVector (JArr [JNum (Fin 1), JNum (Fin 2), JNum NaN]) None
             = Inl VectorInvalidNumbers"
    using b validateVector_cases [where xs = "[JNum (Fin 1), JNum (Fin 2), JNum NaN]"
        and dims = None]
    by simp
  have 3: "validateVector (JArr [JNum (Fin 1), JNum PosInfinity]) (Some (Fin 3))
             = Inl (VectorDimensionMismatch (Fin 3) 2)"
    using c d validateVector_cases [where xs = "[JNum (Fin 1), JNum PosInfinity]" and d = "Fin 3"]
    by simp
  have 4: "validateVector (JArr [JNum (Fin 1), JNum PosInfinity]) (Some (Fin 2)) = Inr True"
    using c e validateVector_cases [where xs = "[JNum (Fin 1), JNum PosInfinity]"
        and dims = "Some (Fin 2)"]
    by simp
  have 5: "validateVector (JArr [JNum (Fin 1), JNum PosInfinity]) None = Inr True"
    using c validateVector_cases [where xs = "[JNum (Fin 1), JNum PosInfinity]" and dims = None]
    by simp
  from a b c d 1 2 3 4 5 show ?thesis by simp
qed

end
